theory Spec2Isabelle
  imports Complex_Main "HOL-Library.Log_Nat"
begin

section \<open>Emotion detection with rate limiting (agent/emotion/detector.py)\<close>

text \<open>
  Times are the readings of \<^verbatim>\<open>time.time()\<close>: seconds as Python floats, modelled as
  reals. Every function that reads the clock takes the reading as an argument, one
  argument per read, so that two reads in one call may differ. Python floats are
  modelled as reals throughout: rounding, infinities and NaN are outside the model.
\<close>

datatype py_error =
  AttributeError | JSONDecodeError | TypeError | ValueError | OverflowError | RemoteError

subsection \<open>RateLimiter\<close>

record RateLimiter =
  max_calls :: int
  time_window :: int
  calls :: "real list"

definition RateLimiter_init :: "int \<Rightarrow> int \<Rightarrow> RateLimiter" where
  "RateLimiter_init mc tw = \<lparr>max_calls = mc, time_window = tw, calls = []\<rparr>"

text \<open>
  \<^verbatim>\<open>can_call\<close> reassigns \<^verbatim>\<open>self.calls\<close> to the timestamps still inside the window and
  then compares their number with \<^verbatim>\<open>max_calls\<close>; the model returns the answer together
  with the limiter after the reassignment.
\<close>

definition can_call :: "real \<Rightarrow> RateLimiter \<Rightarrow> bool \<times> RateLimiter" where
  "can_call now rl =
     (let kept = filter (\<lambda>call_time. now - call_time < of_int (time_window rl)) (calls rl)
      in (int (length kept) < max_calls rl, rl\<lparr>calls := kept\<rparr>))"

definition record_call :: "real \<Rightarrow> RateLimiter \<Rightarrow> RateLimiter" where
  "record_call now rl = rl\<lparr>calls := calls rl @ [now]\<rparr>"

text \<open>
  \<^verbatim>\<open>min(self.calls)\<close> raises ValueError on an empty list. The first time argument is
  the reading inside \<^verbatim>\<open>can_call\<close>, the second the reading in the return expression.
\<close>

definition py_min :: "real list \<Rightarrow> py_error + real" where
  "py_min xs = (case xs of [] \<Rightarrow> Inl ValueError | y # ys \<Rightarrow> Inr (fold min ys y))"

definition time_until_next_call ::
  "real \<Rightarrow> real \<Rightarrow> RateLimiter \<Rightarrow> (py_error + real) \<times> RateLimiter" where
  "time_until_next_call t_check t_now rl =
     (case can_call t_check rl of
        (True, rl') \<Rightarrow> (Inr 0, rl')
      | (False, rl') \<Rightarrow>
          (case py_min (calls rl') of
             Inl e \<Rightarrow> (Inl e, rl')
           | Inr oldest_call \<Rightarrow> (Inr (of_int (time_window rl') - (t_now - oldest_call)), rl')))"


subsection \<open>Python strings\<close>

text \<open>
  Strings are byte lists. \<^verbatim>\<open>lower\<close>, \<^verbatim>\<open>upper\<close> and \<^verbatim>\<open>strip\<close> are modelled on ASCII
  (letters A-Z and a-z, the ASCII whitespace characters); bytes outside ASCII are left
  as they are.
\<close>

definition py_lower_char :: "char \<Rightarrow> char" where
  "py_lower_char c =
     (let n = (of_char c :: nat) in if 65 \<le> n \<and> n \<le> 90 then char_of (n + 32) else c)"

definition py_upper_char :: "char \<Rightarrow> char" where
  "py_upper_char c =
     (let n = (of_char c :: nat) in if 97 \<le> n \<and> n \<le> 122 then char_of (n - 32) else c)"

definition py_lower :: "string \<Rightarrow> string" where
  "py_lower s = map py_lower_char s"

definition py_upper :: "string \<Rightarrow> string" where
  "py_upper s = map py_upper_char s"

definition py_isspace :: "char \<Rightarrow> bool" where
  "py_isspace c =
     (let n = (of_char c :: nat) in n = 32 \<or> (9 \<le> n \<and> n \<le> 13) \<or> (28 \<le> n \<and> n \<le> 31))"

definition py_strip :: "string \<Rightarrow> string" where
  "py_strip s = rev (dropWhile py_isspace (rev (dropWhile py_isspace s)))"

definition py_startswith :: "string \<Rightarrow> string \<Rightarrow> bool" where
  "py_startswith s p = (take (length p) s = p)"

text \<open>\<^verbatim>\<open>s.split("\n")\<close>: always at least one piece.\<close>

fun py_split_nl :: "string \<Rightarrow> string list" where
  "py_split_nl [] = [[]]"
| "py_split_nl (c # cs) =
     (if c = CHR ''\<newline>'' then [] # py_split_nl cs
      else (case py_split_nl cs of [] \<Rightarrow> [[c]] | l # ls \<Rightarrow> (c # l) # ls))"

fun py_join_nl :: "string list \<Rightarrow> string" where
  "py_join_nl [] = []"
| "py_join_nl [l] = l"
| "py_join_nl (l # ls) = l @ [CHR ''\<newline>''] @ py_join_nl ls"

text \<open>\<^verbatim>\<open>str(n)\<close> of an integer: decimal digits, a minus sign for negative numbers.\<close>

fun dec_nat :: "nat \<Rightarrow> string" where
  "dec_nat n =
     (if n < 10 then [char_of (48 + n)] else dec_nat (n div 10) @ [char_of (48 + n mod 10)])"

declare dec_nat.simps [simp del]

definition py_str_int :: "int \<Rightarrow> string" where
  "py_str_int i = (if i < 0 then ''-'' @ dec_nat (nat (- i)) else dec_nat (nat i))"

subsection \<open>Configuration (agent/emotion/emotion_config.py)\<close>

definition EMOTION_CATEGORIES :: "string list" where
  "EMOTION_CATEGORIES =
     [''happy'', ''sad'', ''angry'', ''anxious'', ''neutral'', ''excited'', ''confused'',
      ''frustrated'']"

definition EMOTION_VALENCE_AROUSAL :: "(string \<times> real \<times> real) list" where
  "EMOTION_VALENCE_AROUSAL =
     [(''happy'', 0.8, 0.6),
      (''excited'', 0.9, 0.9),
      (''sad'', - 0.7, 0.3),
      (''anxious'', - 0.5, 0.8),
      (''angry'', - 0.8, 0.9),
      (''frustrated'', - 0.6, 0.7),
      (''confused'', - 0.3, 0.5),
      (''neutral'', 0.0, 0.5)]"

text \<open>The pair is (valence, arousal); an unknown emotion gets the neutral pair.\<close>

definition get_valence_arousal :: "string \<Rightarrow> real \<times> real" where
  "get_valence_arousal e =
     (case map_of EMOTION_VALENCE_AROUSAL e of None \<Rightarrow> (0.0, 0.5) | Some va \<Rightarrow> va)"

definition is_valid_emotion :: "string \<Rightarrow> bool" where
  "is_valid_emotion e = (e \<in> set EMOTION_CATEGORIES)"

definition get_emotion_categories_str :: string where
  "get_emotion_categories_str =
     foldr (\<lambda>c acc. if acc = [] then c else c @ '', '' @ acc) EMOTION_CATEGORIES []"

subsection \<open>Results and the cache\<close>

record EmotionResult =
  emotion :: string
  confidence :: real
  intensity :: real
  valence :: real
  arousal :: real
  detected_at :: string

record cache_entry =
  ce_emotion :: EmotionResult
  ce_timestamp :: real

record EmotionCache =
  ttl_seconds :: int
  cache_dict :: "string \<rightharpoonup> cache_entry"

definition EmotionCache_init :: "int \<Rightarrow> EmotionCache" where
  "EmotionCache_init ttl = \<lparr>ttl_seconds = ttl, cache_dict = Map.empty\<rparr>"

text \<open>\<^verbatim>\<open>EmotionCache.get\<close> deletes an entry older than the time-to-live when it reads it.\<close>

definition cache_get :: "real \<Rightarrow> string \<Rightarrow> EmotionCache \<Rightarrow> EmotionResult option \<times> EmotionCache" where
  "cache_get now text_hash c =
     (case cache_dict c text_hash of
        None \<Rightarrow> (None, c)
      | Some cached \<Rightarrow>
          (if now - ce_timestamp cached > of_int (ttl_seconds c)
           then (None, c\<lparr>cache_dict := (cache_dict c)(text_hash := None)\<rparr>)
           else (Some (ce_emotion cached), c)))"

definition cache_set :: "real \<Rightarrow> string \<Rightarrow> EmotionResult \<Rightarrow> EmotionCache \<Rightarrow> EmotionCache" where
  "cache_set now text_hash e c =
     c\<lparr>cache_dict := (cache_dict c)(text_hash \<mapsto> \<lparr>ce_emotion = e, ce_timestamp = now\<rparr>)\<rparr>"

subsection \<open>Parsing the remote response\<close>

text \<open>
  The value \<^verbatim>\<open>json.loads\<close> returns. An object is the list of its items; a Python dict
  has each key once.
\<close>

datatype json =
  JNull | JBool bool | JInt int | JFloat real | JString string
  | JArray "json list" | JObject "(string \<times> json) list"

text \<open>
  The library functions the detector calls are parameters of the model:
  \<^verbatim>\<open>json.loads\<close> (None when it raises), the built-in \<^verbatim>\<open>float\<close> on a string (None when it
  raises ValueError) and the built-in \<^verbatim>\<open>hash\<close> on a string.
\<close>

record py_runtime =
  json_loads :: "string \<Rightarrow> json option"
  float_of_str :: "string \<Rightarrow> real option"
  hash_str :: "string \<Rightarrow> int"

text \<open>
  \<^verbatim>\<open>float(v)\<close> for a JSON value: a number is converted (an integer too large for a double
  raises OverflowError), a string is parsed, \<^verbatim>\<open>None\<close>, a list and a dict raise TypeError.
\<close>

definition py_float :: "py_runtime \<Rightarrow> json \<Rightarrow> py_error + real" where
  "py_float env v =
     (case v of
        JNull \<Rightarrow> Inl TypeError
      | JBool b \<Rightarrow> Inr (if b then 1 else 0)
      | JInt i \<Rightarrow> (if \<bar>i\<bar> \<ge> 2 ^ 1024 - 2 ^ 970 then Inl OverflowError else Inr (of_int i))
      | JFloat r \<Rightarrow> Inr r
      | JString s \<Rightarrow> (case float_of_str env s of None \<Rightarrow> Inl ValueError | Some r \<Rightarrow> Inr r)
      | JArray _ \<Rightarrow> Inl TypeError
      | JObject _ \<Rightarrow> Inl TypeError)"

definition dict_get :: "(string \<times> json) list \<Rightarrow> string \<Rightarrow> json \<Rightarrow> json" where
  "dict_get kvs k dflt = (case map_of kvs k of None \<Rightarrow> dflt | Some v \<Rightarrow> v)"

definition get_neutral_emotion :: "string \<Rightarrow> EmotionResult" where
  "get_neutral_emotion utc =
     \<lparr>emotion = ''neutral'', confidence = 1.0, intensity = 0.5, valence = 0.0, arousal = 0.5,
      detected_at = utc\<rparr>"

text \<open>
  The body of the \<^verbatim>\<open>try\<close> in \<^verbatim>\<open>_parse_response\<close>, from the value \<^verbatim>\<open>json.loads\<close> returned.
  \<^verbatim>\<open>data.get\<close> exists only on a dict (AttributeError otherwise); a value that is not a
  string is never \<^verbatim>\<open>in EMOTION_CATEGORIES\<close>.
\<close>

definition parse_data :: "py_runtime \<Rightarrow> string \<Rightarrow> json \<Rightarrow> py_error + EmotionResult" where
  "parse_data env utc data =
     (case data of
        JObject kvs \<Rightarrow>
          (let emotion0 = dict_get kvs ''emotion'' (JString ''neutral'');
               emotion1 = (case emotion0 of
                             JString s \<Rightarrow> if \<not> is_valid_emotion s then ''neutral'' else s
                           | _ \<Rightarrow> ''neutral'');
               va = get_valence_arousal emotion1
           in case py_float env (dict_get kvs ''confidence'' (JFloat 0.5)) of
                Inl e \<Rightarrow> Inl e
              | Inr c \<Rightarrow>
                  (case py_float env (dict_get kvs ''intensity'' (JFloat 0.5)) of
                     Inl e \<Rightarrow> Inl e
                   | Inr i \<Rightarrow>
                       Inr \<lparr>emotion = emotion1, confidence = c, intensity = i,
                            valence = fst va, arousal = snd va, detected_at = utc\<rparr>))
      | _ \<Rightarrow> Inl AttributeError)"

text \<open>The text handed to \<^verbatim>\<open>json.loads\<close>: stripped, a Markdown code fence removed.\<close>

definition unfence :: "string \<Rightarrow> string" where
  "unfence response_text =
     (let s = py_strip response_text
      in if py_startswith s [CHR 0x60, CHR 0x60, CHR 0x60]
         then py_join_nl (butlast (tl (py_split_nl s)))
         else s)"

text \<open>
  \<^verbatim>\<open>_parse_response\<close>. The argument is \<^verbatim>\<open>response.text\<close>, which may be \<^verbatim>\<open>None\<close>
  (\<^verbatim>\<open>None.strip()\<close> raises AttributeError inside the \<^verbatim>\<open>try\<close>). Every exception of the
  body is caught and answered with the neutral emotion.
\<close>

definition parse_response_body ::
  "py_runtime \<Rightarrow> string \<Rightarrow> string option \<Rightarrow> py_error + EmotionResult" where
  "parse_response_body env utc response_text =
     (case response_text of
        None \<Rightarrow> Inl AttributeError
      | Some txt \<Rightarrow>
          (case json_loads env (unfence txt) of
             None \<Rightarrow> Inl JSONDecodeError
           | Some data \<Rightarrow> parse_data env utc data))"

definition parse_response :: "py_runtime \<Rightarrow> string \<Rightarrow> string option \<Rightarrow> EmotionResult" where
  "parse_response env utc response_text =
     (case parse_response_body env utc response_text of
        Inl e \<Rightarrow> get_neutral_emotion utc
      | Inr r \<Rightarrow> r)"

subsection \<open>EmotionDetector\<close>

text \<open>
  What \<^verbatim>\<open>client.models.generate_content\<close> does when it is called: it raises, or it
  returns a response whose \<^verbatim>\<open>text\<close> is a string or \<^verbatim>\<open>None\<close>. The remote service is an
  argument of \<^verbatim>\<open>detect_emotion\<close>: a function from the prompt to what happens.
\<close>

datatype reply = Raises | Text string | NoText

definition build_prompt :: "string \<Rightarrow> string" where
  "build_prompt text =
     ''Analyze the emotional tone of this text and classify it into ONE category: ''
     @ get_emotion_categories_str @ ''.\<newline>\<newline>Text: '' @ [CHR 0x22] @ text @ [CHR 0x22]
     @ ''\<newline>\<newline>Respond with ONLY a JSON object:\<newline>{\<newline>    ''
     @ [CHR 0x22] @ ''emotion'' @ [CHR 0x22] @ '': '' @ [CHR 0x22] @ ''category'' @ [CHR 0x22]
     @ '',\<newline>    '' @ [CHR 0x22] @ ''confidence'' @ [CHR 0x22] @ '': 0.0-1.0,\<newline>    ''
     @ [CHR 0x22] @ ''intensity'' @ [CHR 0x22] @ '': 0.0-1.0\<newline>}\<newline>\<newline>Be concise and accurate.''"

definition analyze_with_gemini ::
  "py_runtime \<Rightarrow> string \<Rightarrow> (string \<Rightarrow> reply) \<Rightarrow> string \<Rightarrow> py_error + EmotionResult" where
  "analyze_with_gemini env utc remote text =
     (case remote (build_prompt text) of
        Raises \<Rightarrow> Inl RemoteError
      | Text s \<Rightarrow> Inr (parse_response env utc (Some s))
      | NoText \<Rightarrow> Inr (parse_response env utc None))"

record EmotionDetector =
  has_client :: bool
  rate_limiter :: RateLimiter
  cache :: EmotionCache
  min_analysis_interval :: int
  last_analysis_time :: real
  last_emotion :: EmotionResult

text \<open>
  The constructor; \<open>client_ok\<close> says whether an API key was given and the client could be
  built.
\<close>

definition EmotionDetector_init ::
  "string \<Rightarrow> bool \<Rightarrow> int \<Rightarrow> int \<Rightarrow> int \<Rightarrow> int \<Rightarrow> EmotionDetector" where
  "EmotionDetector_init utc client_ok rate_limit_calls rate_limit_window cache_ttl interval =
     \<lparr>has_client = client_ok,
      rate_limiter = RateLimiter_init rate_limit_calls rate_limit_window,
      cache = EmotionCache_init cache_ttl,
      min_analysis_interval = interval,
      last_analysis_time = 0,
      last_emotion = get_neutral_emotion utc\<rparr>"

text \<open>
  The clock readings of one call of \<^verbatim>\<open>detect_emotion\<close>, one field per place that reads
  the clock, in program order; a field is used only when its place is reached.
\<close>

record clock_reads =
  t_debounce :: real
  t_cache_get :: real
  t_can_call :: real
  t_wait_check :: real
  t_wait_now :: real
  t_record :: real
  t_analysis :: real
  t_cache_set :: real
  utc_now :: string

definition text_hash_of :: "py_runtime \<Rightarrow> string \<Rightarrow> string" where
  "text_hash_of env text = py_str_int (hash_str env (py_strip (py_lower text)))"

text \<open>
  \<^verbatim>\<open>detect_emotion\<close> returns the result, or the exception that leaves the call, and the
  detector after the call. A cached emotion is a dict of six keys, so the test
  \<^verbatim>\<open>if cached_emotion\<close> is the test that the cache answered. The call of
  \<^verbatim>\<open>time_until_next_call\<close>, made for the log line, is outside the \<^verbatim>\<open>try\<close>.
\<close>

definition detect_emotion ::
  "py_runtime \<Rightarrow> clock_reads \<Rightarrow> (string \<Rightarrow> reply) \<Rightarrow> EmotionDetector \<Rightarrow> string \<Rightarrow> bool
   \<Rightarrow> (py_error + EmotionResult) \<times> EmotionDetector" where
  "detect_emotion env clk remote d text force =
     (if \<not> force \<and> t_debounce clk - last_analysis_time d < of_int (min_analysis_interval d)
      then (Inr (last_emotion d), d)
      else
        (let text_hash = text_hash_of env text;
             (cached_emotion, c1) = cache_get (t_cache_get clk) text_hash (cache d);
             d1 = d\<lparr>cache := c1\<rparr>
         in case cached_emotion of
              Some e \<Rightarrow> (Inr e, d1)
            | None \<Rightarrow>
                (let (ok, rl1) = can_call (t_can_call clk) (rate_limiter d1);
                     d2 = d1\<lparr>rate_limiter := rl1\<rparr>
                 in if \<not> ok
                    then (case time_until_next_call (t_wait_check clk) (t_wait_now clk) rl1 of
                            (Inl err, rl2) \<Rightarrow> (Inl err, d2\<lparr>rate_limiter := rl2\<rparr>)
                          | (Inr wait_time, rl2) \<Rightarrow>
                              (Inr (last_emotion d2), d2\<lparr>rate_limiter := rl2\<rparr>))
                    else if \<not> has_client d2 then (Inr (get_neutral_emotion (utc_now clk)), d2)
                    else (case analyze_with_gemini env (utc_now clk) remote text of
                            Inl err \<Rightarrow> (Inr (last_emotion d2), d2)
                          | Inr emotion_data \<Rightarrow>
                              (Inr emotion_data,
                               d2\<lparr>rate_limiter := record_call (t_record clk) rl1,
                                  last_analysis_time := t_analysis clk,
                                  last_emotion := emotion_data,
                                  cache := cache_set (t_cache_set clk) text_hash emotion_data
                                             (cache d2)\<rparr>)))))"

section \<open>Personality adapter (agent/emotion/personality_adapter.py)\<close>

abbreviation apos :: string where
  "apos \<equiv> [CHR 0x27]"

text \<open>The table of instruction modifiers: agent type, then emotion.\<close>

definition EMOTION_ADAPTATIONS :: "(string \<times> (string \<times> string) list) list" where
  "EMOTION_ADAPTATIONS =
  [
    (''teacher'',
     [
      (''happy'',
       ''\<newline>The user seems happy and engaged! Match their positive energy:\<newline>- Celebrate their enthusiasm\<newline>- Build on their momentum\<newline>- Use encouraging language\<newline>- Keep the pace upbeat\<newline>''),
      (''excited'',
       ''\<newline>The user is very excited! Channel that energy:\<newline>- Share in their excitement\<newline>- Keep explanations dynamic and engaging\<newline>- Use vivid examples\<newline>- Maintain high energy in your responses\<newline>''),
      (''confused'',
       ''\<newline>The user seems confused. Adjust your teaching approach:\<newline>- Slow down and break concepts into smaller steps\<newline>- Use simpler language and more examples\<newline>- Check for understanding frequently\<newline>- Be patient and reassuring\<newline>- Offer to explain in a different way\<newline>''),
      (''frustrated'',
       ''\<newline>The user appears frustrated. Provide extra support:\<newline>- Acknowledge that this is challenging\<newline>- Break the problem down into manageable pieces\<newline>- Offer encouragement and remind them of progress\<newline>- Suggest taking a different approach\<newline>- Be patient and supportive\<newline>''),
      (''anxious'',
       ''\<newline>The user seems anxious. Create a calm, supportive environment:\<newline>- Use reassuring language\<newline>- Emphasize that mistakes are part of learning\<newline>- Go at a comfortable pace\<newline>- Provide clear, structured guidance\<newline>- Celebrate small wins\<newline>''),
      (''sad'',
       ''\<newline>The user seems down. Be empathetic and supportive:\<newline>- Show understanding and compassion\<newline>- Keep tone gentle and encouraging\<newline>- Focus on achievable goals\<newline>- Remind them of their capabilities\<newline>- Offer positive reinforcement\<newline>''),
      (''angry'',
       ''\<newline>The user seems upset. Stay calm and professional:\<newline>- Remain patient and understanding\<newline>- Acknowledge their feelings\<newline>- Focus on problem-solving\<newline>- Keep responses clear and helpful\<newline>- Don'' @ apos @ ''t take it personally\<newline>''),
      (''neutral'',
       ''\<newline>The user has a neutral emotional state. Maintain your standard approach:\<newline>- Be clear and informative\<newline>- Stay engaged and helpful\<newline>- Adapt as their emotional state changes\<newline>'')]),
    (''consultant'',
     [
      (''happy'',
       ''The client is positive. Leverage this momentum to explore opportunities and make progress.''),
      (''excited'',
       ''The client is enthusiastic. Channel this energy into actionable next steps.''),
      (''confused'',
       ''The client needs clarity. Slow down, simplify your points, and ensure understanding before proceeding.''),
      (''frustrated'',
       ''The client is frustrated. Acknowledge the challenge, break it down, and focus on practical solutions.''),
      (''anxious'',
       ''The client is concerned. Provide reassurance, clear frameworks, and reduce uncertainty.''),
      (''sad'',
       ''The client seems discouraged. Be empathetic, focus on wins, and rebuild confidence.''),
      (''angry'',
       ''The client is upset. Stay professional, listen carefully, and focus on resolving the issue.''),
      (''neutral'',
       ''Maintain professional, strategic guidance.'')]),
    (''coach'',
     [
      (''happy'',
       ''The person is in a positive state! Amplify this energy and help them set ambitious goals.''),
      (''excited'',
       ''They'' @ apos @ ''re fired up! Help them channel this excitement into concrete action plans.''),
      (''confused'',
       ''They'' @ apos @ ''re uncertain. Help them gain clarity through powerful questions and reflection.''),
      (''frustrated'',
       ''They'' @ apos @ ''re struggling. Acknowledge their effort, reframe the challenge, and find a new angle.''),
      (''anxious'',
       ''They'' @ apos @ ''re worried. Create safety, validate their feelings, and help them find their center.''),
      (''sad'',
       ''They'' @ apos @ ''re feeling low. Hold space for their emotions, remind them of their strength, and find small steps forward.''),
      (''angry'',
       ''They'' @ apos @ ''re upset. Let them express it, validate the emotion, then guide toward constructive action.''),
      (''neutral'',
       ''Meet them where they are and help them explore what'' @ apos @ ''s next.'')]),
    (''friend'',
     [
      (''happy'',
       ''They'' @ apos @ ''re happy! Share in their joy and keep the good vibes going.''),
      (''excited'',
       ''They'' @ apos @ ''re pumped! Match their energy and have fun with it.''),
      (''confused'',
       ''They'' @ apos @ ''re not sure about something. Help them think it through in a relaxed way.''),
      (''frustrated'',
       ''They'' @ apos @ ''re annoyed. Be understanding and help them vent or find a solution.''),
      (''anxious'',
       ''They'' @ apos @ ''re stressed. Be a calming presence and supportive friend.''),
      (''sad'',
       ''They'' @ apos @ ''re down. Be there for them, listen, and offer comfort.''),
      (''angry'',
       ''They'' @ apos @ ''re mad. Let them express it and be supportive without judgment.''),
      (''neutral'',
       ''Just have a good, natural conversation.'')])]"


record history_entry =
  h_emotion :: string
  h_confidence :: real
  h_timestamp :: "string option"

record PersonalityAdapter =
  agent_type :: string
  current_emotion :: string
  emotion_history :: "history_entry list"

definition PersonalityAdapter_init :: "string \<Rightarrow> PersonalityAdapter" where
  "PersonalityAdapter_init ty =
     \<lparr>agent_type = ty, current_emotion = ''neutral'', emotion_history = []\<rparr>"

text \<open>Python's slice \<^verbatim>\<open>xs[-n:]\<close> for a positive n: the last n elements, all of a shorter list.\<close>

definition py_last_n :: "nat \<Rightarrow> 'a list \<Rightarrow> 'a list" where
  "py_last_n n xs = drop (length xs - n) xs"

text \<open>
  The emotion dictionary handed to the adapter, read with \<^verbatim>\<open>.get\<close>: a key may be absent.
\<close>

record emotion_dict =
  d_emotion :: "string option"
  d_confidence :: "real option"
  d_detected_at :: "string option"

definition dict_of_result :: "EmotionResult \<Rightarrow> emotion_dict" where
  "dict_of_result r =
     \<lparr>d_emotion = Some (emotion r), d_confidence = Some (confidence r),
      d_detected_at = Some (detected_at r)\<rparr>"

text \<open>\<^verbatim>\<open>emotion_data.get("emotion", "neutral")\<close> and \<^verbatim>\<open>emotion_data.get("confidence", 0.0)\<close>.\<close>

definition get_emotion :: "emotion_dict \<Rightarrow> string" where
  "get_emotion emotion_data =
     (case d_emotion emotion_data of None \<Rightarrow> ''neutral'' | Some v \<Rightarrow> v)"

definition get_confidence :: "emotion_dict \<Rightarrow> real" where
  "get_confidence emotion_data =
     (case d_confidence emotion_data of None \<Rightarrow> 0.0 | Some v \<Rightarrow> v)"

definition get_adaptation :: "PersonalityAdapter \<Rightarrow> string \<Rightarrow> string option" where
  "get_adaptation a e =
     (case map_of EMOTION_ADAPTATIONS (agent_type a) of
        None \<Rightarrow> None
      | Some agent_adaptations \<Rightarrow> map_of agent_adaptations e)"

text \<open>
  The format \<^verbatim>\<open>{confidence:.0%}\<close> multiplies the confidence by 100 in double arithmetic,
  writes the product in fixed notation with no decimals and appends a percent sign. The
  product of two doubles is the exact product rounded to the nearest double: 53
  significant bits, a tie to the even significand, a spacing of \<open>2 ^ -1074\<close> below
  \<open>2 ^ -1022\<close>, and infinity from \<open>2 ^ 1024\<close> on. The double is then written as the
  nearest integer, a tie going to the even one, with the sign of a negative confidence.
\<close>

definition pow2 :: "int \<Rightarrow> real" where
  "pow2 e = (if 0 \<le> e then 2 ^ nat e else 1 / 2 ^ nat (- e))"

text \<open>The binary exponent of a positive real a: the e with \<open>2 ^ e \<le> a < 2 ^ (e + 1)\<close>.\<close>

definition binary_exponent :: "real \<Rightarrow> int" where
  "binary_exponent a = (if 1 \<le> a then bitlen \<lfloor>a\<rfloor> - 1 else - bitlen (\<lceil>1 / a\<rceil> - 1))"

definition round_half_even :: "real \<Rightarrow> int" where
  "round_half_even x =
     (let f = \<lfloor>x\<rfloor>; d = x - of_int f
      in if d < 1 / 2 then f else if d > 1 / 2 then f + 1 else if even f then f else f + 1)"

text \<open>
  The double nearest to a non-negative real; a value of \<open>2 ^ 1024\<close> or more stands for
  infinity.
\<close>

definition round_to_double :: "real \<Rightarrow> real" where
  "round_to_double a =
     (if a = 0 then 0
      else (let ulp = pow2 (max (binary_exponent a - 52) (- 1074))
            in of_int (round_half_even (a / ulp)) * ulp))"

definition fmt_percent :: "real \<Rightarrow> string" where
  "fmt_percent c =
     (let x = round_to_double (\<bar>c\<bar> * 100)
      in (if c < 0 then ''-'' else [])
         @ (if 2 ^ 1024 \<le> x then ''inf'' else dec_nat (nat (round_half_even x)))
         @ ''%'')"

text \<open>
  The number a string of decimal digits denotes, and the strings of decimal digits: what
  it is for the output to hold a percentage.
\<close>

definition decimal_value :: "string \<Rightarrow> nat" where
  "decimal_value s = foldl (\<lambda>v ch. 10 * v + (of_char ch - 48)) 0 s"

definition decimal_digits :: "string \<Rightarrow> bool" where
  "decimal_digits s = (s \<noteq> [] \<and> list_all (\<lambda>ch. ch \<in> set ''0123456789'') s)"

definition adapted_text :: "string \<Rightarrow> string \<Rightarrow> real \<Rightarrow> string \<Rightarrow> string" where
  "adapted_text base_instructions e c adaptation =
     base_instructions
     @ ''\<newline>\<newline>CURRENT USER EMOTIONAL STATE: '' @ py_upper e
     @ '' (confidence: '' @ fmt_percent c
     @ '')\<newline>\<newline>ADAPT YOUR RESPONSE ACCORDINGLY:\<newline>'' @ adaptation
     @ ''\<newline>\<newline>Remember to maintain your core personality while being sensitive to the user''
     @ apos @ ''s emotional state.\<newline>''"

text \<open>
  \<^verbatim>\<open>adapt_instructions\<close> returns the instructions and the adapter after the call: past
  the confidence gate it sets \<^verbatim>\<open>current_emotion\<close> and appends to \<^verbatim>\<open>emotion_history\<close>,
  keeping the last 10 entries.
\<close>

definition adapt_instructions ::
  "PersonalityAdapter \<Rightarrow> string \<Rightarrow> emotion_dict \<Rightarrow> real \<Rightarrow> string \<times> PersonalityAdapter" where
  "adapt_instructions a base_instructions emotion_data confidence_threshold =
     (let e = get_emotion emotion_data;
          c = get_confidence emotion_data
      in if c < confidence_threshold then (base_instructions, a)
         else
           (let h = emotion_history a
                      @ [\<lparr>h_emotion = e, h_confidence = c,
                          h_timestamp = d_detected_at emotion_data\<rparr>];
                h' = (if length h > 10 then py_last_n 10 h else h);
                a' = a\<lparr>current_emotion := e, emotion_history := h'\<rparr>
            in case get_adaptation a' e of
                 None \<Rightarrow> (base_instructions, a')
               | Some adaptation \<Rightarrow>
                   (if adaptation = [] then (base_instructions, a')
                    else (adapted_text base_instructions e c adaptation, a'))))"

text \<open>
  The counting loop of \<^verbatim>\<open>get_dominant_emotion\<close>. The dict keeps its keys in insertion
  order: a new key goes to the end, an existing key keeps its place.
\<close>

fun dict_bump :: "(string \<times> nat) list \<Rightarrow> string \<Rightarrow> (string \<times> nat) list" where
  "dict_bump [] e = [(e, 0 + 1)]"
| "dict_bump ((k, n) # kvs) e = (if k = e then (k, n + 1) # kvs else (k, n) # dict_bump kvs e)"

fun count_emotions :: "(string \<times> nat) list \<Rightarrow> string list \<Rightarrow> (string \<times> nat) list" where
  "count_emotions emotion_counts [] = emotion_counts"
| "count_emotions emotion_counts (e # es) = count_emotions (dict_bump emotion_counts e) es"

text \<open>
  \<^verbatim>\<open>max(emotion_counts, key=emotion_counts.get)\<close>: the keys are visited in order and a
  later key replaces the best one only when its count is greater; an empty dict raises
  ValueError.
\<close>

definition py_max_key :: "(string \<times> nat) list \<Rightarrow> py_error + string" where
  "py_max_key emotion_counts =
     (case emotion_counts of
        [] \<Rightarrow> Inl ValueError
      | kv # kvs \<Rightarrow> Inr (fst (fold (\<lambda>x best. if snd x > snd best then x else best) kvs kv)))"

definition get_dominant_emotion :: "PersonalityAdapter \<Rightarrow> py_error + string" where
  "get_dominant_emotion a =
     (if emotion_history a = [] then Inr ''neutral''
      else py_max_key (count_emotions [] (map h_emotion (py_last_n 5 (emotion_history a)))))"

definition negative_emotions :: "string set" where
  "negative_emotions = {''sad'', ''frustrated'', ''angry'', ''anxious''}"

definition should_check_in :: "PersonalityAdapter \<Rightarrow> bool" where
  "should_check_in a =
     (if length (emotion_history a) < 3 then False
      else (let recent = map h_emotion (py_last_n 3 (emotion_history a))
            in list_all (\<lambda>e. e \<in> negative_emotions) recent))"

section \<open>Sequences of calls of the adapter\<close>

text \<open>
  The adapter after a sequence of calls of \<^verbatim>\<open>adapt_instructions\<close>, each call given by its
  arguments (base instructions, emotion data, confidence threshold).
\<close>

type_synonym adapt_call = "string \<times> emotion_dict \<times> real"

fun adapt_all :: "PersonalityAdapter \<Rightarrow> adapt_call list \<Rightarrow> PersonalityAdapter" where
  "adapt_all a [] = a"
| "adapt_all a ((base_instructions, emotion_data, confidence_threshold) # cs) =
     adapt_all (snd (adapt_instructions a base_instructions emotion_data confidence_threshold)) cs"

text \<open>A call passes the confidence gate when its confidence is not below its threshold.\<close>

definition passes_gate :: "adapt_call \<Rightarrow> bool" where
  "passes_gate c = (case c of (b, emotion_data, thr) \<Rightarrow> \<not> get_confidence emotion_data < thr)"

text \<open>The history entry a call appends when it passes the gate.\<close>

definition entry_of :: "adapt_call \<Rightarrow> history_entry" where
  "entry_of c = (case c of (b, emotion_data, thr) \<Rightarrow>
     \<lparr>h_emotion = get_emotion emotion_data, h_confidence = get_confidence emotion_data,
      h_timestamp = d_detected_at emotion_data\<rparr>)"

section \<open>A runtime and clocks for the examples\<close>

abbreviation dq :: string where
  "dq \<equiv> [CHR 0x22]"

text \<open>
  Two response texts and the values \<^verbatim>\<open>json.loads\<close> returns for them: a well-formed reply,
  and a reply whose confidence and intensity are outside the range the prompt asks for.
\<close>

definition happy_text :: string where
  "happy_text =
     ''{'' @ dq @ ''emotion'' @ dq @ '': '' @ dq @ ''happy'' @ dq @ '', '' @ dq @ ''confidence''
     @ dq @ '': 0.9, '' @ dq @ ''intensity'' @ dq @ '': 0.7}''"

definition happy_payload :: json where
  "happy_payload =
     JObject [(''emotion'', JString ''happy''), (''confidence'', JFloat 0.9),
              (''intensity'', JFloat 0.7)]"

definition loud_text :: string where
  "loud_text =
     ''{'' @ dq @ ''emotion'' @ dq @ '': '' @ dq @ ''furious'' @ dq @ '', '' @ dq @ ''confidence''
     @ dq @ '': 1.5, '' @ dq @ ''intensity'' @ dq @ '': -2}''"

definition loud_payload :: json where
  "loud_payload =
     JObject [(''emotion'', JString ''furious''), (''confidence'', JFloat 1.5),
              (''intensity'', JInt (- 2))]"

text \<open>
  The runtime of the examples agrees with \<^verbatim>\<open>json.loads\<close> on the texts the examples use:
  the two replies above parse, the text \<^verbatim>\<open>not json\<close> does not. Its \<^verbatim>\<open>float\<close> on strings is not
  called by the examples; its hash is the length of the string.
\<close>

definition example_runtime :: py_runtime where
  "example_runtime =
     \<lparr>json_loads = (\<lambda>s. if s = happy_text then Some happy_payload
                         else if s = loud_text then Some loud_payload else None),
      float_of_str = (\<lambda>s. None),
      hash_str = (\<lambda>s. int (length s))\<rparr>"

text \<open>A call during which every clock reading is the same.\<close>

definition clock_at :: "real \<Rightarrow> string \<Rightarrow> clock_reads" where
  "clock_at t utc =
     \<lparr>t_debounce = t, t_cache_get = t, t_can_call = t, t_wait_check = t, t_wait_now = t,
      t_record = t, t_analysis = t, t_cache_set = t, utc_now = utc\<rparr>"

section \<open>Predicates on the detector\<close>

text \<open>
  A result is valid when its label is one of the 8 categories; a detector is well formed
  when its last emotion and every cached emotion are valid. The constructor builds a
  well-formed detector and \<^verbatim>\<open>detect_emotion\<close> keeps it well formed.
\<close>

definition valid_result :: "EmotionResult \<Rightarrow> bool" where
  "valid_result r = is_valid_emotion (emotion r)"

definition detector_ok :: "EmotionDetector \<Rightarrow> bool" where
  "detector_ok d =
     (valid_result (last_emotion d)
      \<and> (\<forall>k e. cache_dict (cache d) k = Some e \<longrightarrow> valid_result (ce_emotion e)))"

text \<open>
  A call reaches the analysis step when it is not debounced (forced, or the interval has
  passed), the cache has no fresh entry for the text and the limiter admits the call.
\<close>

definition reaches_analysis ::
  "py_runtime \<Rightarrow> clock_reads \<Rightarrow> EmotionDetector \<Rightarrow> string \<Rightarrow> bool \<Rightarrow> bool" where
  "reaches_analysis env clk d text force =
     ((force \<or> \<not> t_debounce clk - last_analysis_time d < of_int (min_analysis_interval d))
      \<and> fst (cache_get (t_cache_get clk) (text_hash_of env text) (cache d)) = None
      \<and> fst (can_call (t_can_call clk) (rate_limiter d)))"

text \<open>The detector when the analysis step starts: the cache and the limiter pruned.\<close>

definition before_analysis ::
  "py_runtime \<Rightarrow> clock_reads \<Rightarrow> EmotionDetector \<Rightarrow> string \<Rightarrow> EmotionDetector" where
  "before_analysis env clk d text =
     d\<lparr>cache := snd (cache_get (t_cache_get clk) (text_hash_of env text) (cache d)),
       rate_limiter := snd (can_call (t_can_call clk) (rate_limiter d))\<rparr>"

section \<open>Properties of the rate limiter\<close>

text \<open>
  C9, as the code has it. \<^verbatim>\<open>can_call\<close> is not free of effects: it replaces the call list
  by the timestamps still inside the window. At time 1100, with a window of 60 seconds,
  the call recorded at time 1000 is gone after \<^verbatim>\<open>can_call\<close>.
\<close>

theorem can_call_prunes_counterexample:
  "snd (can_call 1100 \<lparr>max_calls = 10, time_window = 60, calls = [1000]\<rparr>)
     = \<lparr>max_calls = 10, time_window = 60, calls = []\<rparr>
   \<and> snd (can_call 1100 \<lparr>max_calls = 10, time_window = 60, calls = [1000]\<rparr>)
     \<noteq> \<lparr>max_calls = 10, time_window = 60, calls = [1000]\<rparr>"
  by (simp add: can_call_def)

text \<open>
  C9, amended. \<^verbatim>\<open>can_call\<close> never consumes a slot: the call list after it is the call
  list before it restricted to the timestamps inside the window, so it never grows and
  nothing is added to it; \<^verbatim>\<open>max_calls\<close> and \<^verbatim>\<open>time_window\<close> are unchanged; the answer
  compares the number of timestamps kept with \<^verbatim>\<open>max_calls\<close>. Only \<^verbatim>\<open>record_call\<close>
  appends a timestamp.
\<close>

theorem can_call_only_prunes:
  "calls (snd (can_call now rl))
     = filter (\<lambda>call_time. now - call_time < of_int (time_window rl)) (calls rl)
   \<and> length (calls (snd (can_call now rl))) \<le> length (calls rl)
   \<and> max_calls (snd (can_call now rl)) = max_calls rl
   \<and> time_window (snd (can_call now rl)) = time_window rl
   \<and> fst (can_call now rl) = (int (length (calls (snd (can_call now rl)))) < max_calls rl)
   \<and> calls (record_call now rl) = calls rl @ [now]"
  by (simp add: can_call_def record_call_def Let_def)

section \<open>Properties of the personality adapter\<close>



subsection \<open>What one call of \<^verbatim>\<open>adapt_instructions\<close> does\<close>

lemma adapt_low_unchanged:
  "get_confidence d < thr \<Longrightarrow> adapt_instructions a b d thr = (b, a)"
  by (simp add: adapt_instructions_def)

lemma trim_eq: "(if length h > 10 then py_last_n 10 h else h) = py_last_n 10 h"
  by (simp add: py_last_n_def)

lemma get_adaptation_tracked:
  "get_adaptation (a\<lparr>current_emotion := x, emotion_history := y\<rparr>) e = get_adaptation a e"
  by (simp add: get_adaptation_def)

lemma adapt_high:
  assumes "\<not> get_confidence d < thr"
  shows "adapt_instructions a b d thr =
     ((case get_adaptation a (get_emotion d) of
         None \<Rightarrow> b
       | Some adaptation \<Rightarrow>
           if adaptation = [] then b
           else adapted_text b (get_emotion d) (get_confidence d) adaptation),
      a\<lparr>current_emotion := get_emotion d,
        emotion_history := py_last_n 10 (emotion_history a @ [entry_of (b, d, thr)])\<rparr>)"
proof (cases "get_adaptation a (get_emotion d)")
  case None
  then show ?thesis using assms
    unfolding adapt_instructions_def Let_def trim_eq get_adaptation_tracked entry_of_def
    by simp
next
  case (Some t)
  then show ?thesis using assms
    unfolding adapt_instructions_def Let_def trim_eq get_adaptation_tracked entry_of_def
    by simp
qed

lemma adapt_fst_state_independent:
  "fst (adapt_instructions (a\<lparr>current_emotion := ce, emotion_history := h\<rparr>) b d thr)
     = fst (adapt_instructions a b d thr)"
proof (cases "get_confidence d < thr")
  case True
  then show ?thesis by (simp add: adapt_low_unchanged)
next
  case False
  then show ?thesis by (simp add: adapt_high get_adaptation_tracked)
qed

lemma adapt_snd:
  "snd (adapt_instructions a b d thr) =
     (if get_confidence d < thr then a
      else a\<lparr>current_emotion := get_emotion d,
             emotion_history := py_last_n 10 (emotion_history a @ [entry_of (b, d, thr)])\<rparr>)"
  by (simp add: adapt_low_unchanged adapt_high)

subsection \<open>Sequences of calls\<close>

lemma adapt_all_append: "adapt_all a (cs @ ds) = adapt_all (adapt_all a cs) ds"
  by (induction a cs rule: adapt_all.induct) auto

lemma adapt_all_filter: "adapt_all a (filter passes_gate cs) = adapt_all a cs"
proof (induction a cs rule: adapt_all.induct)
  case (1 a)
  show ?case by simp
next
  case (2 a b d thr cs)
  show ?case
  proof (cases "get_confidence d < thr")
    case True
    then show ?thesis using 2 by (simp add: passes_gate_def adapt_low_unchanged)
  next
    case False
    then show ?thesis using 2 by (simp add: passes_gate_def)
  qed
qed

lemma py_last_n_snoc:
  "py_last_n 10 (py_last_n 10 xs @ [x]) = py_last_n 10 (xs @ [x])"
proof (cases "length xs \<le> 10")
  case True
  then show ?thesis by (simp add: py_last_n_def)
next
  case False
  then have "length xs - (length xs - 10 + 9) + (length xs - 10) = length xs - 9" by arith
  then show ?thesis using False by (simp add: py_last_n_def)
qed

lemma set_py_last_n: "set (py_last_n n xs) \<subseteq> set xs"
  by (simp add: py_last_n_def set_drop_subset)

lemma history_adapt_all_gen:
  "emotion_history (adapt_all a cs) =
     (if filter passes_gate cs = [] then emotion_history a
      else py_last_n 10 (emotion_history a @ map entry_of (filter passes_gate cs)))"
proof (induction cs rule: rev_induct)
  case Nil
  show ?case by simp
next
  case (snoc c cs)
  obtain b d thr where c: "c = (b, d, thr)" by (cases c) auto
  show ?case
  proof (cases "passes_gate c")
    case False
    then have "get_confidence d < thr" by (simp add: passes_gate_def c)
    then show ?thesis using snoc False
      by (simp add: adapt_all_append c adapt_low_unchanged)
  next
    case True
    then have nl: "\<not> get_confidence d < thr" by (simp add: passes_gate_def c)
    have step: "emotion_history (adapt_all a (cs @ [c])) =
        py_last_n 10 (emotion_history (adapt_all a cs) @ [entry_of c])"
      using nl by (simp add: adapt_all_append c adapt_snd)
    show ?thesis
    proof (cases "filter passes_gate cs = []")
      case True
      then show ?thesis using step snoc \<open>passes_gate c\<close> by simp
    next
      case False
      then show ?thesis using step snoc \<open>passes_gate c\<close>
        by (simp add: py_last_n_snoc)
    qed
  qed
qed

lemma history_adapt_all_init:
  "emotion_history (adapt_all (PersonalityAdapter_init ty) cs) =
     py_last_n 10 (map entry_of (filter passes_gate cs))"
  by (simp add: history_adapt_all_gen PersonalityAdapter_init_def py_last_n_def)

text \<open>
  C10. A call whose confidence is below its threshold leaves the adapter as it was, so
  it appends nothing to the history and does not set the current emotion. Hence the
  adapter after any sequence of calls is the adapter after the calls that passed the
  gate alone; from a new adapter the history is the last 10 of the entries of the calls
  that passed, every entry of the history comes from a call whose confidence was not
  below the threshold of that call, and \<^verbatim>\<open>get_dominant_emotion\<close> and \<^verbatim>\<open>should_check_in\<close>
  give what they give when the low-confidence calls are left out.
\<close>

theorem low_confidence_not_recorded:
  "(get_confidence d < thr \<longrightarrow> snd (adapt_instructions a b d thr) = a)
   \<and> adapt_all a cs = adapt_all a (filter passes_gate cs)
   \<and> emotion_history (adapt_all (PersonalityAdapter_init ty) cs)
       = py_last_n 10 (map entry_of (filter passes_gate cs))
   \<and> (\<forall>e \<in> set (emotion_history (adapt_all (PersonalityAdapter_init ty) cs)).
         \<exists>c \<in> set cs. passes_gate c \<and> e = entry_of c)
   \<and> get_dominant_emotion (adapt_all a cs)
       = get_dominant_emotion (adapt_all a (filter passes_gate cs))
   \<and> should_check_in (adapt_all a cs) = should_check_in (adapt_all a (filter passes_gate cs))"
proof -
  have "set (py_last_n 10 (map entry_of (filter passes_gate cs)))
          \<subseteq> entry_of ` {c \<in> set cs. passes_gate c}"
    using set_py_last_n [of 10 "map entry_of (filter passes_gate cs)"] by auto
  then have "\<forall>e \<in> set (emotion_history (adapt_all (PersonalityAdapter_init ty) cs)).
         \<exists>c \<in> set cs. passes_gate c \<and> e = entry_of c"
    unfolding history_adapt_all_init by blast
  then show ?thesis
    by (simp add: adapt_low_unchanged adapt_all_filter history_adapt_all_init)
qed

theorem low_confidence_not_recorded_witness:
  "get_confidence \<lparr>d_emotion = Some ''angry'', d_confidence = Some 0.4, d_detected_at = None\<rparr>
     < 0.6
   \<and> snd (adapt_instructions (PersonalityAdapter_init ''teacher'') ''Base.''
        \<lparr>d_emotion = Some ''angry'', d_confidence = Some 0.4, d_detected_at = None\<rparr> 0.6)
     = PersonalityAdapter_init ''teacher''
   \<and> emotion_history (adapt_all (PersonalityAdapter_init ''teacher'')
        [(''Base.'', \<lparr>d_emotion = Some ''angry'', d_confidence = Some 0.4, d_detected_at = None\<rparr>, 0.6),
         (''Base.'', \<lparr>d_emotion = Some ''happy'', d_confidence = Some 0.9, d_detected_at = None\<rparr>, 0.6),
         (''Base.'', \<lparr>d_emotion = Some ''sad'', d_confidence = Some 0.5, d_detected_at = None\<rparr>, 0.6)])
     = [\<lparr>h_emotion = ''happy'', h_confidence = 0.9, h_timestamp = None\<rparr>]"
proof -
  let ?low = "\<lparr>d_emotion = Some ''angry'', d_confidence = Some 0.4, d_detected_at = None\<rparr>"
  let ?cs = "[(''Base.'', ?low, 0.6),
        (''Base.'', \<lparr>d_emotion = Some ''happy'', d_confidence = Some 0.9, d_detected_at = None\<rparr>, 0.6),
        (''Base.'', \<lparr>d_emotion = Some ''sad'', d_confidence = Some 0.5, d_detected_at = None\<rparr>, 0.6)]"
  note th = low_confidence_not_recorded [of ?low "0.6" "PersonalityAdapter_init ''teacher''"
      "''Base.''" ?cs "''teacher''"]
  have low: "get_confidence ?low < 0.6"
    by (simp add: get_confidence_def)
  have unchanged: "snd (adapt_instructions (PersonalityAdapter_init ''teacher'') ''Base.'' ?low 0.6)
      = PersonalityAdapter_init ''teacher''"
    using th low by blast
  have "emotion_history (adapt_all (PersonalityAdapter_init ''teacher'') ?cs)
      = py_last_n 10 (map entry_of (filter passes_gate ?cs))"
    using th by blast
  also have "\<dots> = [\<lparr>h_emotion = ''happy'', h_confidence = 0.9, h_timestamp = None\<rparr>]"
    by (simp add: get_confidence_def get_emotion_def passes_gate_def entry_of_def py_last_n_def)
  finally show ?thesis using low unchanged by blast
qed

text \<open>
  C4, as the code has it. \<^verbatim>\<open>adapt_instructions\<close> is not free of effects: on a new teacher
  adapter, a call with the emotion confused at confidence 0.8 and threshold 0.6 sets
  \<^verbatim>\<open>current_emotion\<close> and appends an entry to \<^verbatim>\<open>emotion_history\<close>.
\<close>

theorem adapt_instructions_mutates_counterexample:
  "snd (adapt_instructions (PersonalityAdapter_init ''teacher'') ''You are a helpful teacher.''
        \<lparr>d_emotion = Some ''confused'', d_confidence = Some 0.8,
         d_detected_at = Some ''2026-01-15T04:00:00Z''\<rparr> 0.6)
     = \<lparr>agent_type = ''teacher'', current_emotion = ''confused'',
        emotion_history = [\<lparr>h_emotion = ''confused'', h_confidence = 0.8,
                            h_timestamp = Some ''2026-01-15T04:00:00Z''\<rparr>]\<rparr>
   \<and> PersonalityAdapter_init ''teacher''
     = \<lparr>agent_type = ''teacher'', current_emotion = ''neutral'', emotion_history = []\<rparr>"
  by (simp add: adapt_snd get_confidence_def get_emotion_def entry_of_def py_last_n_def
        PersonalityAdapter_init_def)

text \<open>
  C4, amended. The instructions \<^verbatim>\<open>adapt_instructions\<close> returns do not depend on the
  adapter's \<^verbatim>\<open>current_emotion\<close> and \<^verbatim>\<open>emotion_history\<close>: they are a function of the
  agent type, the base instructions, the emotion data and the threshold, and a second
  call with the same arguments returns the same string. The call has an effect on the
  adapter: when the confidence is not below the threshold it sets \<^verbatim>\<open>current_emotion\<close>
  and appends an entry to \<^verbatim>\<open>emotion_history\<close>, of which the last 10 are kept; when the
  confidence is below the threshold the adapter is unchanged.
\<close>

theorem adapt_instructions_output_state_independent:
  "fst (adapt_instructions (a\<lparr>current_emotion := ce, emotion_history := h\<rparr>) b d thr)
     = fst (adapt_instructions a b d thr)
   \<and> fst (adapt_instructions (snd (adapt_instructions a b d thr)) b d thr)
     = fst (adapt_instructions a b d thr)
   \<and> snd (adapt_instructions a b d thr) =
       (if get_confidence d < thr then a
        else a\<lparr>current_emotion := get_emotion d,
               emotion_history := py_last_n 10 (emotion_history a @ [entry_of (b, d, thr)])\<rparr>)"
proof -
  have "fst (adapt_instructions (snd (adapt_instructions a b d thr)) b d thr)
     = fst (adapt_instructions a b d thr)"
    unfolding adapt_snd by (simp add: adapt_fst_state_independent)
  then show ?thesis
    using adapt_fst_state_independent adapt_snd by simp
qed

subsection \<open>The percentage\<close>

lemma pow2_pos: "0 < pow2 e"
  by (simp add: pow2_def)

lemma pow2_minus52: "pow2 (e - 52) = pow2 e / 2 ^ 52"
proof -
  consider "52 \<le> e" | "0 \<le> e" "e < 52" | "e < 0" by linarith
  then show ?thesis
  proof cases
    case 1
    then have "nat e = nat (e - 52) + 52" by simp
    then have "(2::real) ^ nat e = 2 ^ nat (e - 52) * 2 ^ 52"
      by (simp only: power_add)
    with 1 show ?thesis by (simp add: pow2_def)
  next
    case 2
    define A where "A = (2::real) ^ nat e"
    define B where "B = (2::real) ^ nat (52 - e)"
    from 2 have "nat e + nat (52 - e) = 52" by simp
    then have "(2::real) ^ (nat e + nat (52 - e)) = 2 ^ 52" by (simp only:)
    then have "A * B = 2 ^ 52" unfolding A_def B_def by (simp only: power_add)
    moreover have "0 < B" by (simp add: B_def)
    ultimately have "1 / B = A / 2 ^ 52" by (simp add: field_simps)
    moreover from 2 have "nat (- (e - 52)) = nat (52 - e)" by simp
    then have "pow2 (e - 52) = 1 / B" using 2 by (simp add: pow2_def B_def)
    moreover have "pow2 e = A" using 2 by (simp add: pow2_def A_def)
    ultimately show ?thesis by simp
  next
    case 3
    then have "nat (52 - e) = nat (- e) + 52" by simp
    then have "(2::real) ^ nat (52 - e) = 2 ^ nat (- e) * 2 ^ 52"
      by (simp only: power_add)
    with 3 show ?thesis by (simp add: pow2_def)
  qed
qed

lemma binary_exponent_le:
  assumes "0 < a"
  shows "pow2 (binary_exponent a) \<le> a"
proof (cases "1 \<le> a")
  case True
  let ?m = "\<lfloor>a\<rfloor>"
  from True have m: "0 < ?m" by linarith
  from bitlen_bounds [OF m] have b: "2 ^ nat (bitlen ?m - 1) \<le> ?m" by simp
  from m have "1 \<le> bitlen ?m" by (simp add: bitlen_alt_def)
  then have "pow2 (bitlen ?m - 1) = 2 ^ nat (bitlen ?m - 1)" by (simp add: pow2_def)
  also have "\<dots> \<le> real_of_int ?m" using b
    by (metis of_int_le_iff of_int_numeral of_int_power)
  also have "\<dots> \<le> a" by simp
  finally show ?thesis using True by (simp add: binary_exponent_def)
next
  case False
  let ?b = "1 / a"
  let ?m = "\<lceil>?b\<rceil> - 1"
  from False assms have b1: "1 < ?b" by simp
  then have m: "0 < ?m" by linarith
  from bitlen_bounds [OF m] have "?m < 2 ^ nat (bitlen ?m)" by simp
  then have "\<lceil>?b\<rceil> \<le> 2 ^ nat (bitlen ?m)" by simp
  then have "real_of_int \<lceil>?b\<rceil> \<le> 2 ^ nat (bitlen ?m)"
    by (metis of_int_le_iff of_int_numeral of_int_power)
  moreover have "?b \<le> real_of_int \<lceil>?b\<rceil>" by simp
  ultimately have "?b \<le> 2 ^ nat (bitlen ?m)" by linarith
  then have le: "1 / 2 ^ nat (bitlen ?m) \<le> a"
    using assms by (simp add: field_simps)
  from m have k: "1 \<le> bitlen ?m" by (simp add: bitlen_alt_def)
  then have "pow2 (- bitlen ?m) = 1 / 2 ^ nat (bitlen ?m)" by (simp add: pow2_def)
  with le show ?thesis using False by (simp add: binary_exponent_def)
qed

lemma round_half_even_near: "\<bar>real_of_int (round_half_even y) - y\<bar> \<le> 1 / 2"
proof -
  have "real_of_int \<lfloor>y\<rfloor> \<le> y" and "y < real_of_int \<lfloor>y\<rfloor> + 1" by linarith+
  then show ?thesis
    by (auto simp: round_half_even_def Let_def)
qed

lemma round_half_even_nonneg: "0 \<le> y \<Longrightarrow> 0 \<le> round_half_even y"
proof -
  assume "0 \<le> y"
  then have "0 \<le> \<lfloor>y\<rfloor>" by simp
  then show ?thesis by (auto simp: round_half_even_def Let_def)
qed

lemma round_to_double_nonneg: "0 \<le> a \<Longrightarrow> 0 \<le> round_to_double a"
proof -
  assume a: "0 \<le> a"
  show ?thesis
  proof (cases "a = 0")
    case True
    then show ?thesis by (simp add: round_to_double_def)
  next
    case False
    let ?ulp = "pow2 (max (binary_exponent a - 52) (- 1074))"
    have "0 \<le> a / ?ulp" using a pow2_pos [of "max (binary_exponent a - 52) (- 1074)"] by simp
    then have "0 \<le> round_half_even (a / ?ulp)" by (rule round_half_even_nonneg)
    then have "0 \<le> real_of_int (round_half_even (a / ?ulp)) * ?ulp"
      using pow2_pos [of "max (binary_exponent a - 52) (- 1074)"] by simp
    with False show ?thesis by (simp add: round_to_double_def Let_def)
  qed
qed

lemma round_to_double_error:
  assumes "0 \<le> a"
  shows "\<bar>round_to_double a - a\<bar> \<le> a / 2 ^ 53 + 1 / 2 ^ 1075"
proof (cases "a = 0")
  case True
  then show ?thesis by (simp add: round_to_double_def)
next
  case False
  with assms have pos: "0 < a" by simp
  define E where "E = max (binary_exponent a - 52) (- 1074)"
  define ulp where "ulp = pow2 E"
  have up: "0 < ulp" unfolding ulp_def by (rule pow2_pos)
  have rd: "round_to_double a = real_of_int (round_half_even (a / ulp)) * ulp"
    using False by (simp add: round_to_double_def Let_def ulp_def E_def)
  have "\<bar>round_to_double a - a\<bar> = \<bar>real_of_int (round_half_even (a / ulp)) - a / ulp\<bar> * ulp"
  proof -
    have "round_to_double a - a = (real_of_int (round_half_even (a / ulp)) - a / ulp) * ulp"
      unfolding rd using up by (simp add: field_simps)
    then show ?thesis using up by (simp add: abs_mult)
  qed
  also have "\<dots> \<le> (1 / 2) * ulp"
    using round_half_even_near [of "a / ulp"] up by (simp add: mult_right_mono)
  finally have half: "\<bar>round_to_double a - a\<bar> \<le> ulp / 2" by simp
  have "ulp \<le> a / 2 ^ 52 + 1 / 2 ^ 1074"
  proof (cases "binary_exponent a - 52 \<ge> - 1074")
    case True
    then have "E = binary_exponent a - 52" by (simp add: E_def)
    then have "ulp = pow2 (binary_exponent a) / 2 ^ 52"
      by (simp add: ulp_def pow2_minus52)
    also have "\<dots> \<le> a / 2 ^ 52"
      using binary_exponent_le [OF pos] by (simp add: divide_right_mono)
    finally show ?thesis by (simp add: add_increasing2)
  next
    case False
    then have "E = - 1074" by (simp add: E_def)
    then have "ulp = 1 / 2 ^ 1074" by (simp add: ulp_def pow2_def)
    then show ?thesis using pos by simp
  qed
  then have "ulp / 2 \<le> a / 2 ^ 53 + 1 / 2 ^ 1075" by simp
  with half show ?thesis by linarith
qed

lemma decimal_value_snoc:
  "decimal_value (s @ [ch]) = 10 * decimal_value s + (of_char ch - 48)"
  by (simp add: decimal_value_def)

lemma digit_char: "d < 10 \<Longrightarrow> (of_char (char_of (48 + d) :: char) :: nat) = 48 + d"
  by (simp add: of_char_of)

lemma digit_char_in: "d < 10 \<Longrightarrow> (char_of (48 + d :: nat) :: char) \<in> set ''0123456789''"
proof -
  assume "d < 10"
  then have "d \<in> {0, 1, 2, 3, 4, 5, 6, 7, 8, 9}" by auto
  then show ?thesis by (elim insertE emptyE; simp; code_simp)
qed

lemma decimal_value_dec_nat: "decimal_value (dec_nat n) = n"
proof (induction n rule: dec_nat.induct)
  case (1 n)
  show ?case
  proof (cases "n < 10")
    case True
    then show ?thesis
      using digit_char [of n]
      by (simp add: dec_nat.simps [of n] decimal_value_def)
  next
    case False
    have "n mod 10 < 10" by simp
    from digit_char [OF this] 1 [OF False] False show ?thesis
      by (simp add: dec_nat.simps [of n] decimal_value_snoc)
  qed
qed

lemma decimal_digits_dec_nat: "decimal_digits (dec_nat n)"
proof (induction n rule: dec_nat.induct)
  case (1 n)
  show ?case
  proof (cases "n < 10")
    case True
    then show ?thesis
      using digit_char_in [of n]
      by (simp add: dec_nat.simps [of n] decimal_digits_def)
  next
    case False
    have "n mod 10 < 10" by simp
    from digit_char_in [OF this] 1 [OF False] False show ?thesis
      by (simp add: dec_nat.simps [of n] decimal_digits_def)
  qed
qed

lemma fmt_percent_nearest:
  assumes "100 * \<bar>c\<bar> < 2 ^ 1023"
  shows "\<exists>n. fmt_percent c = (if c < 0 then ''-'' else []) @ dec_nat n @ ''%''
             \<and> \<bar>real n - 100 * \<bar>c\<bar>\<bar> \<le> 1 / 2 + 100 * \<bar>c\<bar> / 2 ^ 53 + 1 / 2 ^ 1075"
proof -
  define a where "a = \<bar>c\<bar> * 100"
  define x where "x = round_to_double a"
  have a0: "0 \<le> a" by (simp add: a_def)
  have x0: "0 \<le> x" unfolding x_def using a0 by (rule round_to_double_nonneg)
  have err: "\<bar>x - a\<bar> \<le> a / 2 ^ 53 + 1 / 2 ^ 1075"
    unfolding x_def using a0 by (rule round_to_double_error)
  have a_small: "a < 2 ^ 1023" using assms by (simp add: a_def mult.commute)
  define P where "P = (2::real) ^ 1023"
  have P1: "1 \<le> P" unfolding P_def by (rule one_le_power) simp
  have P2: "(2::real) ^ 1024 = 2 * P" unfolding P_def by simp
  have "a / 2 ^ 53 \<le> a / 2" using a0 by (simp add: field_simps)
  moreover have "(1::real) / 2 ^ 1075 \<le> 1 / 2" by simp
  ultimately have "x \<le> 3 / 2 * a + 1 / 2" using err by linarith
  moreover have "a < P" using a_small by (simp add: P_def)
  ultimately have "x < 2 * P" using P1 by linarith
  then have fin: "\<not> 2 ^ 1024 \<le> x" unfolding P2 by simp
  define n where "n = nat (round_half_even x)"
  have "0 \<le> round_half_even x" using x0 by (rule round_half_even_nonneg)
  then have rn: "real n = real_of_int (round_half_even x)" by (simp add: n_def)
  have "\<bar>real n - x\<bar> \<le> 1 / 2" unfolding rn by (rule round_half_even_near)
  with err have "\<bar>real n - a\<bar> \<le> 1 / 2 + a / 2 ^ 53 + 1 / 2 ^ 1075" by linarith
  then have bound: "\<bar>real n - 100 * \<bar>c\<bar>\<bar> \<le> 1 / 2 + 100 * \<bar>c\<bar> / 2 ^ 53 + 1 / 2 ^ 1075"
    by (simp add: a_def mult.commute)
  have "fmt_percent c = (if c < 0 then ''-'' else []) @ dec_nat n @ ''%''"
    using fin by (simp add: fmt_percent_def Let_def x_def [symmetric] a_def [symmetric] n_def)
  with bound show ?thesis by blast
qed


text \<open>Evaluating the format at a given confidence, step by step.\<close>

lemma fmt_percent_eval:
  assumes "round_to_double (\<bar>c\<bar> * 100) = x"
      and "\<not> 2 ^ 1024 \<le> x"
      and "dec_nat (nat (round_half_even x)) = s"
  shows "fmt_percent c = (if c < 0 then ''-'' else []) @ s @ ''%''"
  using assms by (simp add: fmt_percent_def)

lemma fmt_percent_80: "fmt_percent 0.8 = ''80%''"
proof -
  have 1: "round_to_double (\<bar>0.8\<bar> * 100) = 80" by code_simp
  have 2: "\<not> 2 ^ 1024 \<le> (80::real)" by simp
  have 3: "dec_nat (nat (round_half_even 80)) = ''80''" by code_simp
  from fmt_percent_eval [OF 1 2 3] show ?thesis by simp
qed

lemma fmt_percent_double_0615: "fmt_percent (2769713770832855 / 2 ^ 52) = ''62%''"
proof -
  have 1: "round_to_double (\<bar>2769713770832855 / 2 ^ 52\<bar> * 100) = 123 / 2" by code_simp
  have 2: "\<not> 2 ^ 1024 \<le> (123 / 2 :: real)" by simp
  have 3: "dec_nat (nat (round_half_even (123 / 2))) = ''62''" by code_simp
  from fmt_percent_eval [OF 1 2 3] show ?thesis by simp
qed

lemma fmt_percent_double_0575: "fmt_percent (2589569785738035 / 2 ^ 52) = ''57%''"
proof -
  have 1: "round_to_double (\<bar>2589569785738035 / 2 ^ 52\<bar> * 100)
      = 8092405580431359 / 2 ^ 47" by code_simp
  have 2: "\<not> 2 ^ 1024 \<le> (8092405580431359 / 2 ^ 47 :: real)" by simp
  have 3: "dec_nat (nat (round_half_even (8092405580431359 / 2 ^ 47))) = ''57''" by code_simp
  from fmt_percent_eval [OF 1 2 3] show ?thesis by simp
qed

lemma fmt_percent_double_0995: "fmt_percent (8962163258467287 / 2 ^ 53) = ''100%''"
proof -
  have 1: "round_to_double (\<bar>8962163258467287 / 2 ^ 53\<bar> * 100) = 199 / 2" by code_simp
  have 2: "\<not> 2 ^ 1024 \<le> (199 / 2 :: real)" by simp
  have 3: "dec_nat (nat (round_half_even (199 / 2))) = ''100''" by code_simp
  from fmt_percent_eval [OF 1 2 3] show ?thesis by simp
qed

lemma fmt_percent_minus: "fmt_percent (- (1 / 8)) = ''-12%''"
proof -
  have 1: "round_to_double (\<bar>- (1 / 8)\<bar> * 100) = 25 / 2" by code_simp
  have 2: "\<not> 2 ^ 1024 \<le> (25 / 2 :: real)" by simp
  have 3: "dec_nat (nat (round_half_even (25 / 2))) = ''12''" by code_simp
  from fmt_percent_eval [OF 1 2 3] show ?thesis by simp
qed

subsection \<open>The adaptation table\<close>

lemma table_templates_nonempty:
  "list_all (\<lambda>(ty, tbl). list_all (\<lambda>(e, t). t \<noteq> []) tbl) EMOTION_ADAPTATIONS"
  by (simp add: EMOTION_ADAPTATIONS_def)

lemma templates_nonempty:
  assumes "map_of EMOTION_ADAPTATIONS ty = Some tbl" and "map_of tbl e = Some t"
  shows "t \<noteq> []"
proof -
  from assms(1) have "(ty, tbl) \<in> set EMOTION_ADAPTATIONS" by (rule map_of_SomeD)
  with table_templates_nonempty have "list_all (\<lambda>(e, t). t \<noteq> []) tbl"
    by (auto simp: list_all_iff)
  moreover from assms(2) have "(e, t) \<in> set tbl" by (rule map_of_SomeD)
  ultimately show ?thesis by (auto simp: list_all_iff)
qed

lemma get_adaptation_nonempty: "get_adaptation a e = Some t \<Longrightarrow> t \<noteq> []"
  by (auto simp: get_adaptation_def split: option.splits dest: templates_nonempty)

lemma py_upper_categories:
  "map py_upper EMOTION_CATEGORIES =
     [''HAPPY'', ''SAD'', ''ANGRY'', ''ANXIOUS'', ''NEUTRAL'', ''EXCITED'', ''CONFUSED'',
      ''FRUSTRATED'']"
  by code_simp

lemma py_upper_confused: "py_upper ''confused'' = ''CONFUSED''"
  by code_simp

lemma get_adaptation_teacher_confused:
  "get_adaptation (PersonalityAdapter_init ''teacher'') ''confused'' =
     Some ''\<newline>The user seems confused. Adjust your teaching approach:\<newline>- Slow down and break concepts into smaller steps\<newline>- Use simpler language and more examples\<newline>- Check for understanding frequently\<newline>- Be patient and reassuring\<newline>- Offer to explain in a different way\<newline>''"
  by (simp add: get_adaptation_def PersonalityAdapter_init_def EMOTION_ADAPTATIONS_def)

lemma get_adaptation_unknown_agent:
  "get_adaptation (PersonalityAdapter_init ''mentor'') e = None"
  by (simp add: get_adaptation_def PersonalityAdapter_init_def EMOTION_ADAPTATIONS_def)

text \<open>
  C8. When the confidence is below the threshold, \<^verbatim>\<open>adapt_instructions\<close> returns the base
  instructions unchanged. When the confidence is not below the threshold and the table
  has a template for the agent type and the emotion, it returns the base instructions
  followed by a block that holds the emotion label (in upper case), the confidence as a
  percentage and the template text. When the table has no template, it returns the base
  instructions unchanged. The percentage is a sign for a negative confidence, the decimal
  digits of a natural number n and a percent sign, where n is 100 times the confidence
  rounded to an integer after the rounding of the product to a double: it differs from
  100 times the confidence by at most one half and the rounding error of the product. So
  the confidence 0.8 is written 80%, and the doubles nearest to 0.615, 0.575 and 0.995
  are written 62%, 57% and 100%. The 8 labels of the taxonomy appear as HAPPY, SAD,
  ANGRY, ANXIOUS, NEUTRAL, EXCITED, CONFUSED and FRUSTRATED.
\<close>

theorem adapt_instructions_gating:
  "(get_confidence d < thr \<longrightarrow> fst (adapt_instructions a b d thr) = b)
   \<and> (\<not> get_confidence d < thr \<and> get_adaptation a (get_emotion d) = Some template \<longrightarrow>
        fst (adapt_instructions a b d thr) =
          b @ ''\<newline>\<newline>CURRENT USER EMOTIONAL STATE: '' @ py_upper (get_emotion d)
            @ '' (confidence: '' @ fmt_percent (get_confidence d)
            @ '')\<newline>\<newline>ADAPT YOUR RESPONSE ACCORDINGLY:\<newline>'' @ template
            @ ''\<newline>\<newline>Remember to maintain your core personality while being sensitive to the user''
            @ apos @ ''s emotional state.\<newline>'')
   \<and> (\<not> get_confidence d < thr \<and> get_adaptation a (get_emotion d) = None \<longrightarrow>
        fst (adapt_instructions a b d thr) = b)
   \<and> (100 * \<bar>get_confidence d\<bar> < 2 ^ 1023 \<longrightarrow>
        (\<exists>n. fmt_percent (get_confidence d)
                = (if get_confidence d < 0 then ''-'' else []) @ dec_nat n @ ''%''
             \<and> decimal_digits (dec_nat n) \<and> decimal_value (dec_nat n) = n
             \<and> \<bar>real n - 100 * \<bar>get_confidence d\<bar>\<bar>
                 \<le> 1 / 2 + 100 * \<bar>get_confidence d\<bar> / 2 ^ 53 + 1 / 2 ^ 1075))
   \<and> fmt_percent 0.8 = ''80%''
   \<and> fmt_percent (2769713770832855 / 2 ^ 52) = ''62%''
   \<and> fmt_percent (2589569785738035 / 2 ^ 52) = ''57%''
   \<and> fmt_percent (8962163258467287 / 2 ^ 53) = ''100%''
   \<and> map py_upper EMOTION_CATEGORIES =
       [''HAPPY'', ''SAD'', ''ANGRY'', ''ANXIOUS'', ''NEUTRAL'', ''EXCITED'', ''CONFUSED'',
        ''FRUSTRATED'']"
proof -
  have low: "get_confidence d < thr \<longrightarrow> fst (adapt_instructions a b d thr) = b"
    by (simp add: adapt_low_unchanged)
  have none: "\<not> get_confidence d < thr \<and> get_adaptation a (get_emotion d) = None \<longrightarrow>
        fst (adapt_instructions a b d thr) = b"
    by (simp add: adapt_high)
  have some: "\<not> get_confidence d < thr \<and> get_adaptation a (get_emotion d) = Some template \<longrightarrow>
        fst (adapt_instructions a b d thr) =
          adapted_text b (get_emotion d) (get_confidence d) template"
    using get_adaptation_nonempty [of a "get_emotion d" template] by (simp add: adapt_high)
  have pct: "\<exists>n. fmt_percent (get_confidence d)
                = (if get_confidence d < 0 then ''-'' else []) @ dec_nat n @ ''%''
             \<and> decimal_digits (dec_nat n) \<and> decimal_value (dec_nat n) = n
             \<and> \<bar>real n - 100 * \<bar>get_confidence d\<bar>\<bar>
                 \<le> 1 / 2 + 100 * \<bar>get_confidence d\<bar> / 2 ^ 53 + 1 / 2 ^ 1075"
    if "100 * \<bar>get_confidence d\<bar> < 2 ^ 1023"
    using fmt_percent_nearest [OF that] decimal_digits_dec_nat decimal_value_dec_nat
    by blast
  show ?thesis
    using low none some pct fmt_percent_80 fmt_percent_double_0615 fmt_percent_double_0575
      fmt_percent_double_0995 py_upper_categories
    unfolding adapted_text_def by blast
qed

theorem adapt_instructions_gating_witness:
  "get_confidence \<lparr>d_emotion = Some ''confused'', d_confidence = Some 0.4, d_detected_at = None\<rparr>
     < 0.6
   \<and> fst (adapt_instructions (PersonalityAdapter_init ''teacher'') ''You are a helpful teacher.''
        \<lparr>d_emotion = Some ''confused'', d_confidence = Some 0.4, d_detected_at = None\<rparr> 0.6)
     = ''You are a helpful teacher.''
   \<and> \<not> get_confidence \<lparr>d_emotion = Some ''confused'', d_confidence = Some 0.8, d_detected_at = None\<rparr>
     < 0.6
   \<and> fst (adapt_instructions (PersonalityAdapter_init ''teacher'') ''You are a helpful teacher.''
        \<lparr>d_emotion = Some ''confused'', d_confidence = Some 0.8, d_detected_at = None\<rparr> 0.6)
     = ''You are a helpful teacher.\<newline>\<newline>CURRENT USER EMOTIONAL STATE: CONFUSED (confidence: 80%)\<newline>\<newline>ADAPT YOUR RESPONSE ACCORDINGLY:\<newline>\<newline>The user seems confused. Adjust your teaching approach:\<newline>- Slow down and break concepts into smaller steps\<newline>- Use simpler language and more examples\<newline>- Check for understanding frequently\<newline>- Be patient and reassuring\<newline>- Offer to explain in a different way\<newline>\<newline>\<newline>Remember to maintain your core personality while being sensitive to the user''
       @ apos @ ''s emotional state.\<newline>''
   \<and> get_adaptation (PersonalityAdapter_init ''mentor'') ''confused'' = None
   \<and> fst (adapt_instructions (PersonalityAdapter_init ''mentor'') ''You are a helpful teacher.''
        \<lparr>d_emotion = Some ''confused'', d_confidence = Some 0.8, d_detected_at = None\<rparr> 0.6)
     = ''You are a helpful teacher.''
   \<and> 100 * \<bar>get_confidence
                 \<lparr>d_emotion = Some ''confused'', d_confidence = Some 0.8, d_detected_at = None\<rparr>\<bar>
     < 2 ^ 1023
   \<and> (\<exists>n. ''80%'' = dec_nat n @ ''%'' \<and> decimal_value (dec_nat n) = n
          \<and> \<bar>real n - 80\<bar> \<le> 1 / 2 + 80 / 2 ^ 53 + 1 / 2 ^ 1075)"
proof -
  let ?lo = "\<lparr>d_emotion = Some ''confused'', d_confidence = Some 0.4, d_detected_at = None\<rparr>"
  let ?hi = "\<lparr>d_emotion = Some ''confused'', d_confidence = Some 0.8, d_detected_at = None\<rparr>"
  let ?b = "''You are a helpful teacher.''"
  have lo: "get_confidence ?lo < 0.6" by (simp add: get_confidence_def)
  have hi: "\<not> get_confidence ?hi < 0.6" by (simp add: get_confidence_def)
  have e: "get_emotion ?hi = ''confused''" by (simp add: get_emotion_def)
  have c: "get_confidence ?hi = 0.8" by (simp add: get_confidence_def)
  have fin: "100 * \<bar>get_confidence ?hi\<bar> < 2 ^ 1023" unfolding c by simp
  have 1: "fst (adapt_instructions (PersonalityAdapter_init ''teacher'') ?b ?lo 0.6) = ?b"
    using adapt_instructions_gating [of ?lo "0.6" "PersonalityAdapter_init ''teacher''" ?b] lo
    by blast
  have 2: "fst (adapt_instructions (PersonalityAdapter_init ''teacher'') ?b ?hi 0.6)
      = ?b @ ''\<newline>\<newline>CURRENT USER EMOTIONAL STATE: '' @ py_upper (get_emotion ?hi)
            @ '' (confidence: '' @ fmt_percent (get_confidence ?hi)
            @ '')\<newline>\<newline>ADAPT YOUR RESPONSE ACCORDINGLY:\<newline>''
            @ ''\<newline>The user seems confused. Adjust your teaching approach:\<newline>- Slow down and break concepts into smaller steps\<newline>- Use simpler language and more examples\<newline>- Check for understanding frequently\<newline>- Be patient and reassuring\<newline>- Offer to explain in a different way\<newline>''
            @ ''\<newline>\<newline>Remember to maintain your core personality while being sensitive to the user''
            @ apos @ ''s emotional state.\<newline>''"
    using adapt_instructions_gating [of ?hi "0.6" "PersonalityAdapter_init ''teacher''" ?b] hi
      get_adaptation_teacher_confused unfolding e by blast
  have 3: "fst (adapt_instructions (PersonalityAdapter_init ''mentor'') ?b ?hi 0.6) = ?b"
    using adapt_instructions_gating [of ?hi "0.6" "PersonalityAdapter_init ''mentor''" ?b] hi
      get_adaptation_unknown_agent by blast
  have "\<exists>n. fmt_percent (get_confidence ?hi)
                = (if get_confidence ?hi < 0 then ''-'' else []) @ dec_nat n @ ''%''
             \<and> decimal_digits (dec_nat n) \<and> decimal_value (dec_nat n) = n
             \<and> \<bar>real n - 100 * \<bar>get_confidence ?hi\<bar>\<bar>
                 \<le> 1 / 2 + 100 * \<bar>get_confidence ?hi\<bar> / 2 ^ 53 + 1 / 2 ^ 1075"
    using adapt_instructions_gating [of ?hi "0.6" "PersonalityAdapter_init ''teacher''" ?b] fin
    by blast
  then obtain n where
    n1: "fmt_percent 0.8 = dec_nat n @ ''%''" and
    n2: "decimal_value (dec_nat n) = n" and
    n3: "\<bar>real n - 100 * \<bar>0.8\<bar>\<bar> \<le> 1 / 2 + 100 * \<bar>0.8\<bar> / 2 ^ 53 + 1 / 2 ^ 1075"
    unfolding c by auto
  from n3 have n3': "\<bar>real n - 80\<bar> \<le> 1 / 2 + 80 / 2 ^ 53 + 1 / 2 ^ 1075" by simp
  have 4: "\<exists>n. ''80%'' = dec_nat n @ ''%'' \<and> decimal_value (dec_nat n) = n
          \<and> \<bar>real n - 80\<bar> \<le> 1 / 2 + 80 / 2 ^ 53 + 1 / 2 ^ 1075"
    using n1 n2 n3' unfolding fmt_percent_80 by blast
  have shown: "fst (adapt_instructions (PersonalityAdapter_init ''teacher'') ?b ?hi 0.6)
     = ''You are a helpful teacher.\<newline>\<newline>CURRENT USER EMOTIONAL STATE: CONFUSED (confidence: 80%)\<newline>\<newline>ADAPT YOUR RESPONSE ACCORDINGLY:\<newline>\<newline>The user seems confused. Adjust your teaching approach:\<newline>- Slow down and break concepts into smaller steps\<newline>- Use simpler language and more examples\<newline>- Check for understanding frequently\<newline>- Be patient and reassuring\<newline>- Offer to explain in a different way\<newline>\<newline>\<newline>Remember to maintain your core personality while being sensitive to the user''
       @ apos @ ''s emotional state.\<newline>''"
    using 2 unfolding e c py_upper_confused fmt_percent_80 by simp
  show ?thesis
    using lo hi 1 shown 3 get_adaptation_unknown_agent fin 4 by blast
qed

subsection \<open>The dominant emotion\<close>

lemma keys_dict_bump:
  "map fst (dict_bump cs e) = (if e \<in> set (map fst cs) then map fst cs else map fst cs @ [e])"
  by (induction cs e rule: dict_bump.induct) auto

lemma map_of_dict_bump:
  "map_of (dict_bump cs e) k =
     (if k = e then Some (case map_of cs e of None \<Rightarrow> 1 | Some n \<Rightarrow> n + 1) else map_of cs k)"
  by (induction cs e rule: dict_bump.induct) auto

lemma count_emotions_snoc:
  "count_emotions cs (es @ [e]) = dict_bump (count_emotions cs es) e"
  by (induction cs es rule: count_emotions.induct) auto

lemma map_of_count_emotions:
  "map_of (count_emotions [] w) k = (if k \<in> set w then Some (count_list w k) else None)"
proof (induction w arbitrary: k rule: rev_induct)
  case Nil
  show ?case by simp
next
  case (snoc e w)
  show ?case
    by (simp add: count_emotions_snoc map_of_dict_bump snoc)
qed

lemma distinct_keys_count_emotions: "distinct (map fst (count_emotions [] w))"
proof (induction w rule: rev_induct)
  case Nil
  show ?case by simp
next
  case (snoc e w)
  then show ?case
    by (auto simp: count_emotions_snoc keys_dict_bump)
qed

lemma set_keys_count_emotions: "set (map fst (count_emotions [] w)) = set w"
proof (induction w rule: rev_induct)
  case Nil
  show ?case by simp
next
  case (snoc e w)
  then show ?case
    by (auto simp: count_emotions_snoc keys_dict_bump)
qed

text \<open>
  The keys are in the order of first occurrence: the labels that occur in w before the
  first k are among the keys before k.
\<close>

lemma keys_order_count_emotions:
  "map fst (count_emotions [] w) = kpre @ k # kpost \<Longrightarrow>
     set (takeWhile (\<lambda>x. x \<noteq> k) w) \<subseteq> set kpre"
proof (induction w arbitrary: kpost rule: rev_induct)
  case Nil
  then show ?case by simp
next
  case (snoc e w)
  let ?K = "map fst (count_emotions [] w)"
  show ?case
  proof (cases "e \<in> set w")
    case True
    then have "map fst (count_emotions [] (w @ [e])) = ?K"
      using set_keys_count_emotions[of w] by (simp add: count_emotions_snoc keys_dict_bump)
    with snoc.prems have K: "?K = kpre @ k # kpost" by simp
    then have "k \<in> set ?K" by simp
    then have "k \<in> set w" unfolding set_keys_count_emotions .
    then have "takeWhile (\<lambda>x. x \<noteq> k) (w @ [e]) = takeWhile (\<lambda>x. x \<noteq> k) w"
      by (simp add: takeWhile_append1)
    then show ?thesis using snoc.IH[OF K] by simp
  next
    case False
    then have Ke: "map fst (count_emotions [] (w @ [e])) = ?K @ [e]"
      using set_keys_count_emotions[of w] by (simp add: count_emotions_snoc keys_dict_bump)
    show ?thesis
    proof (cases "k = e")
      case True
      with Ke snoc.prems have eq: "?K @ [e] = kpre @ e # kpost" by simp
      have notin: "e \<notin> set ?K" using False unfolding set_keys_count_emotions .
      have "kpre = ?K"
      proof (cases kpost rule: rev_cases)
        case Nil
        with eq show ?thesis by simp
      next
        case (snoc kp z)
        with eq have "?K = kpre @ e # kp" by simp
        then have "e \<in> set ?K" by simp
        with notin show ?thesis by simp
      qed
      then have kw: "set kpre = set w" using set_keys_count_emotions[of w] by simp
      have "\<And>x. x \<in> set w \<Longrightarrow> x \<noteq> e" using False by blast
      then have "takeWhile (\<lambda>x. x \<noteq> e) (w @ [e]) = w @ takeWhile (\<lambda>x. x \<noteq> e) [e]"
        by (rule takeWhile_append2)
      then show ?thesis using True kw by simp
    next
      case kne: False
      with Ke snoc.prems have "?K @ [e] = kpre @ k # kpost" by simp
      with kne obtain kpost' where K: "?K = kpre @ k # kpost'"
        by (cases kpost rule: rev_cases) auto
      then have "k \<in> set ?K" by simp
    then have "k \<in> set w" unfolding set_keys_count_emotions .
      then have "takeWhile (\<lambda>x. x \<noteq> k) (w @ [e]) = takeWhile (\<lambda>x. x \<noteq> k) w"
        by (simp add: takeWhile_append1)
      then show ?thesis using snoc.IH[OF K] by simp
    qed
  qed
qed

text \<open>The loop of \<^verbatim>\<open>max\<close> stops at the first element of greatest count.\<close>

lemma fold_first_max:
  "\<exists>pre post. (best :: string \<times> nat) # kvs
       = pre @ fold (\<lambda>x best. if snd x > snd best then x else best) kvs best # post
     \<and> (\<forall>x \<in> set pre.
           snd x < snd (fold (\<lambda>x best. if snd x > snd best then x else best) kvs best))
     \<and> (\<forall>x \<in> set post.
           snd x \<le> snd (fold (\<lambda>x best. if snd x > snd best then x else best) kvs best))"
proof (induction kvs arbitrary: best)
  case Nil
  have "best # [] = [] @ best # [] \<and> (\<forall>x \<in> set []. snd x < snd best)
      \<and> (\<forall>x \<in> set []. snd x \<le> snd best)" by simp
  then show ?case unfolding fold_Nil id_apply by blast
next
  case (Cons x xs)
  let ?f = "\<lambda>x best. if snd x > snd best then x else (best :: string \<times> nat)"
  show ?case
  proof (cases "snd x > snd best")
    case True
    define r where "r = fold ?f xs x"
    from True have fx: "fold ?f (x # xs) best = r" by (simp add: r_def)
    from Cons.IH [of x] obtain pre post where
      dec: "x # xs = pre @ r # post" and
      before: "\<forall>y \<in> set pre. snd y < snd r" and
      after: "\<forall>y \<in> set post. snd y \<le> snd r"
      unfolding r_def by blast
    have "x \<in> set (pre @ r # post)" unfolding dec [symmetric] by simp
    then have "x \<in> set pre \<or> x = r \<or> x \<in> set post" by auto
    then have "snd x \<le> snd r" using before after by (auto intro: less_imp_le)
    with True have "snd best < snd r" by simp
    then have "best # x # xs = (best # pre) @ r # post
        \<and> (\<forall>y \<in> set (best # pre). snd y < snd r) \<and> (\<forall>y \<in> set post. snd y \<le> snd r)"
      using dec before after by simp
    then show ?thesis unfolding fx by blast
  next
    case False
    define r where "r = fold ?f xs best"
    from False have fx: "fold ?f (x # xs) best = r" by (simp add: r_def)
    from Cons.IH [of best] obtain pre post where
      dec: "best # xs = pre @ r # post" and
      before: "\<forall>y \<in> set pre. snd y < snd r" and
      after: "\<forall>y \<in> set post. snd y \<le> snd r"
      unfolding r_def by blast
    show ?thesis
    proof (cases pre)
      case Nil
      with dec have r: "r = best" and p: "post = xs" by simp_all
      from False have "snd x \<le> snd best" by simp
      then have "best # x # xs = [] @ r # (x # xs)
          \<and> (\<forall>y \<in> set []. snd y < snd r) \<and> (\<forall>y \<in> set (x # xs). snd y \<le> snd r)"
        using after r p by simp
      then show ?thesis unfolding fx by blast
    next
      case (Cons p pre')
      with dec have pb: "p = best" and xs: "xs = pre' @ r # post" by simp_all
      have "snd best < snd r" using before Cons pb by simp
      with False have "snd x < snd r" by simp
      then have "best # x # xs = (best # x # pre') @ r # post
          \<and> (\<forall>y \<in> set (best # x # pre'). snd y < snd r) \<and> (\<forall>y \<in> set post. snd y \<le> snd r)"
        using before after Cons pb xs by simp
      then show ?thesis unfolding fx by blast
    qed
  qed
qed

lemma py_max_key_first_max:
  assumes "w \<noteq> []"
  shows "\<exists>r pre post. py_max_key (count_emotions [] w) = Inr r
           \<and> w = pre @ r # post \<and> r \<notin> set pre
           \<and> (\<forall>e \<in> set pre. count_list w e < count_list w r)
           \<and> (\<forall>e \<in> set w. count_list w e \<le> count_list w r)"
proof -
  let ?C = "count_emotions [] w"
  let ?f = "\<lambda>x best. if snd x > snd best then x else (best :: string \<times> nat)"
  have keys: "set (map fst ?C) = set w" by (rule set_keys_count_emotions)
  with assms have "?C \<noteq> []" by auto
  then obtain kv kvs where C: "?C = kv # kvs" by (cases ?C) auto
  let ?fm = "fold ?f kvs kv"
  let ?r = "fst ?fm"
  have res: "py_max_key ?C = Inr ?r" by (simp add: py_max_key_def C)
  from fold_first_max [of kv kvs] obtain P Q where
    dec: "kv # kvs = P @ ?fm # Q" and
    before: "\<forall>x \<in> set P. snd x < snd ?fm" and
    after: "\<forall>x \<in> set Q. snd x \<le> snd ?fm" by blast
  have CPQ: "?C = P @ ?fm # Q" using C dec by simp
  have val: "snd x = count_list w (fst x)" if "x \<in> set ?C" for x
  proof -
    have "map_of ?C (fst x) = Some (snd x)"
      using that distinct_keys_count_emotions [of w] by simp
    moreover have "fst x \<in> set w" using that keys by force
    ultimately show ?thesis by (simp add: map_of_count_emotions)
  qed
  have fm_in: "?fm \<in> set ?C" unfolding CPQ by simp
  then have r_in: "?r \<in> set w" using keys by force
  have r_val: "snd ?fm = count_list w ?r" using val [OF fm_in] .
  from split_list_first [OF r_in] obtain ys zs where
    w: "w = ys @ ?r # zs" and notin: "?r \<notin> set ys" by blast
  have "\<And>x. x \<in> set ys \<Longrightarrow> x \<noteq> ?r" using notin by blast
  then have "takeWhile (\<lambda>x. x \<noteq> ?r) (ys @ ?r # zs) = ys @ takeWhile (\<lambda>x. x \<noteq> ?r) (?r # zs)"
    by (rule takeWhile_append2)
  then have tw: "takeWhile (\<lambda>x. x \<noteq> ?r) w = ys" unfolding w [symmetric] by simp
  have "map fst ?C = map fst P @ ?r # map fst Q" unfolding CPQ by simp
  from keys_order_count_emotions [OF this] have sub: "set ys \<subseteq> set (map fst P)"
    unfolding tw .
  have lt: "count_list w e < count_list w ?r" if "e \<in> set ys" for e
  proof -
    from that sub obtain x where x: "x \<in> set P" "fst x = e" by auto
    then have "x \<in> set ?C" unfolding CPQ by simp
    from val [OF this] before x r_val show ?thesis by auto
  qed
  have le: "count_list w e \<le> count_list w ?r" if "e \<in> set w" for e
  proof -
    from that keys have "e \<in> fst ` set ?C" by simp
    then obtain x where x: "x \<in> set ?C" "e = fst x" by (rule imageE)
    then have "x \<in> set P \<or> x = ?fm \<or> x \<in> set Q" unfolding CPQ by auto
    then have "snd x \<le> snd ?fm" using before after by auto
    with val [OF x(1)] x(2) r_val show ?thesis by simp
  qed
  show ?thesis using res w notin lt le by blast
qed

text \<open>
  C7. With an empty history \<^verbatim>\<open>get_dominant_emotion\<close> returns neutral. Otherwise it
  returns a label r of the 5 most recent entries (the history without all but its last
  5 entries) whose count among them is greatest, and every label that occurs among them
  before the first r has a smaller count: of the labels of greatest count it is the one
  met first. Entries before the last 5 have no influence. For the history happy, sad,
  happy, sad the result is happy; for the history sad, sad, sad, happy, angry, happy,
  angry, where sad is the most frequent label but occurs once among the last 5, the
  result is happy. It never raises.
\<close>

theorem get_dominant_emotion_spec:
  "(emotion_history a = [] \<longrightarrow> get_dominant_emotion a = Inr ''neutral'')
   \<and> (emotion_history a \<noteq> [] \<longrightarrow>
        (\<exists>r pre post. get_dominant_emotion a = Inr r
           \<and> map h_emotion (drop (length (emotion_history a) - 5) (emotion_history a))
               = pre @ r # post
           \<and> r \<notin> set pre
           \<and> (\<forall>e \<in> set pre.
                 count_list (map h_emotion
                     (drop (length (emotion_history a) - 5) (emotion_history a))) e
                   < count_list (map h_emotion
                       (drop (length (emotion_history a) - 5) (emotion_history a))) r)
           \<and> (\<forall>e \<in> set (map h_emotion
                          (drop (length (emotion_history a) - 5) (emotion_history a))).
                 count_list (map h_emotion
                     (drop (length (emotion_history a) - 5) (emotion_history a))) e
                   \<le> count_list (map h_emotion
                       (drop (length (emotion_history a) - 5) (emotion_history a))) r)))
   \<and> get_dominant_emotion (a\<lparr>emotion_history := h @ [e1, e2, e3, e4, e5]\<rparr>)
       = get_dominant_emotion (a\<lparr>emotion_history := [e1, e2, e3, e4, e5]\<rparr>)
   \<and> (map h_emotion (emotion_history a) = [''happy'', ''sad'', ''happy'', ''sad''] \<longrightarrow>
        get_dominant_emotion a = Inr ''happy'')
   \<and> (map h_emotion (emotion_history a)
         = [''sad'', ''sad'', ''sad'', ''happy'', ''angry'', ''happy'', ''angry''] \<longrightarrow>
        get_dominant_emotion a = Inr ''happy'')"
proof -
  let ?W = "map h_emotion (drop (length (emotion_history a) - 5) (emotion_history a))"
  have empty: "emotion_history a = [] \<longrightarrow> get_dominant_emotion a = Inr ''neutral''"
    by (simp add: get_dominant_emotion_def)
  have general: "\<exists>r pre post. get_dominant_emotion a = Inr r
           \<and> ?W = pre @ r # post \<and> r \<notin> set pre
           \<and> (\<forall>e \<in> set pre. count_list ?W e < count_list ?W r)
           \<and> (\<forall>e \<in> set ?W. count_list ?W e \<le> count_list ?W r)"
    if ne: "emotion_history a \<noteq> []"
  proof -
    have "length (emotion_history a) - 5 < length (emotion_history a)"
      using ne by (cases "emotion_history a") auto
    then have "?W \<noteq> []" by simp
    from py_max_key_first_max [OF this] show ?thesis
      using ne by (simp add: get_dominant_emotion_def py_last_n_def)
  qed
  have window: "get_dominant_emotion (a\<lparr>emotion_history := h @ [e1, e2, e3, e4, e5]\<rparr>)
       = get_dominant_emotion (a\<lparr>emotion_history := [e1, e2, e3, e4, e5]\<rparr>)"
    by (simp add: get_dominant_emotion_def py_last_n_def)
  have tie: "get_dominant_emotion a = Inr ''happy''"
    if h: "map h_emotion (emotion_history a) = [''happy'', ''sad'', ''happy'', ''sad'']"
  proof -
    from h have "length (map h_emotion (emotion_history a)) = 4" by simp
    then have len: "length (emotion_history a) = 4" by simp
    then have "py_last_n 5 (emotion_history a) = emotion_history a"
      by (simp add: py_last_n_def)
    moreover from len have "emotion_history a \<noteq> []" by auto
    ultimately show ?thesis
      by (simp add: get_dominant_emotion_def h py_max_key_def)
  qed
  have recent: "get_dominant_emotion a = Inr ''happy''"
    if h: "map h_emotion (emotion_history a)
         = [''sad'', ''sad'', ''sad'', ''happy'', ''angry'', ''happy'', ''angry'']"
  proof -
    from h have "length (map h_emotion (emotion_history a)) = 7" by simp
    then have len: "length (emotion_history a) = 7" by simp
    have "map h_emotion (py_last_n 5 (emotion_history a))
        = drop 2 (map h_emotion (emotion_history a))"
      using len by (simp add: py_last_n_def drop_map)
    then have "map h_emotion (py_last_n 5 (emotion_history a))
        = [''sad'', ''happy'', ''angry'', ''happy'', ''angry'']"
      unfolding h by simp
    moreover from len have "emotion_history a \<noteq> []" by auto
    ultimately show ?thesis
      by (simp add: get_dominant_emotion_def py_max_key_def)
  qed
  show ?thesis using empty general window tie recent by blast
qed

theorem get_dominant_emotion_spec_witness:
  "emotion_history \<lparr>agent_type = ''friend'', current_emotion = ''angry'',
      emotion_history =
        [\<lparr>h_emotion = ''sad'', h_confidence = 0.9, h_timestamp = None\<rparr>,
         \<lparr>h_emotion = ''sad'', h_confidence = 0.7, h_timestamp = None\<rparr>,
         \<lparr>h_emotion = ''sad'', h_confidence = 0.8, h_timestamp = None\<rparr>,
         \<lparr>h_emotion = ''happy'', h_confidence = 0.9, h_timestamp = None\<rparr>,
         \<lparr>h_emotion = ''angry'', h_confidence = 0.7, h_timestamp = None\<rparr>,
         \<lparr>h_emotion = ''happy'', h_confidence = 0.8, h_timestamp = None\<rparr>,
         \<lparr>h_emotion = ''angry'', h_confidence = 0.9, h_timestamp = None\<rparr>]\<rparr> \<noteq> []
   \<and> get_dominant_emotion \<lparr>agent_type = ''friend'', current_emotion = ''angry'',
      emotion_history =
        [\<lparr>h_emotion = ''sad'', h_confidence = 0.9, h_timestamp = None\<rparr>,
         \<lparr>h_emotion = ''sad'', h_confidence = 0.7, h_timestamp = None\<rparr>,
         \<lparr>h_emotion = ''sad'', h_confidence = 0.8, h_timestamp = None\<rparr>,
         \<lparr>h_emotion = ''happy'', h_confidence = 0.9, h_timestamp = None\<rparr>,
         \<lparr>h_emotion = ''angry'', h_confidence = 0.7, h_timestamp = None\<rparr>,
         \<lparr>h_emotion = ''happy'', h_confidence = 0.8, h_timestamp = None\<rparr>,
         \<lparr>h_emotion = ''angry'', h_confidence = 0.9, h_timestamp = None\<rparr>]\<rparr> = Inr ''happy''
   \<and> get_dominant_emotion \<lparr>agent_type = ''friend'', current_emotion = ''sad'',
      emotion_history =
        [\<lparr>h_emotion = ''happy'', h_confidence = 0.9, h_timestamp = None\<rparr>,
         \<lparr>h_emotion = ''sad'', h_confidence = 0.7, h_timestamp = None\<rparr>,
         \<lparr>h_emotion = ''happy'', h_confidence = 0.8, h_timestamp = None\<rparr>,
         \<lparr>h_emotion = ''sad'', h_confidence = 0.9, h_timestamp = None\<rparr>]\<rparr> = Inr ''happy''
   \<and> emotion_history (PersonalityAdapter_init ''friend'') = []
   \<and> get_dominant_emotion (PersonalityAdapter_init ''friend'') = Inr ''neutral''"
proof -
  let ?a7 = "\<lparr>agent_type = ''friend'', current_emotion = ''angry'',
      emotion_history =
        [\<lparr>h_emotion = ''sad'', h_confidence = 0.9, h_timestamp = None\<rparr>,
         \<lparr>h_emotion = ''sad'', h_confidence = 0.7, h_timestamp = None\<rparr>,
         \<lparr>h_emotion = ''sad'', h_confidence = 0.8, h_timestamp = None\<rparr>,
         \<lparr>h_emotion = ''happy'', h_confidence = 0.9, h_timestamp = None\<rparr>,
         \<lparr>h_emotion = ''angry'', h_confidence = 0.7, h_timestamp = None\<rparr>,
         \<lparr>h_emotion = ''happy'', h_confidence = 0.8, h_timestamp = None\<rparr>,
         \<lparr>h_emotion = ''angry'', h_confidence = 0.9, h_timestamp = None\<rparr>]\<rparr>"
  let ?a4 = "\<lparr>agent_type = ''friend'', current_emotion = ''sad'',
      emotion_history =
        [\<lparr>h_emotion = ''happy'', h_confidence = 0.9, h_timestamp = None\<rparr>,
         \<lparr>h_emotion = ''sad'', h_confidence = 0.7, h_timestamp = None\<rparr>,
         \<lparr>h_emotion = ''happy'', h_confidence = 0.8, h_timestamp = None\<rparr>,
         \<lparr>h_emotion = ''sad'', h_confidence = 0.9, h_timestamp = None\<rparr>]\<rparr>"
  have h7: "map h_emotion (emotion_history ?a7)
      = [''sad'', ''sad'', ''sad'', ''happy'', ''angry'', ''happy'', ''angry'']"
    by simp
  have h4: "map h_emotion (emotion_history ?a4) = [''happy'', ''sad'', ''happy'', ''sad'']"
    by simp
  have ne: "emotion_history ?a7 \<noteq> []" by simp
  have 1: "get_dominant_emotion ?a7 = Inr ''happy''"
    using get_dominant_emotion_spec [of ?a7, THEN conjunct2, THEN conjunct2, THEN conjunct2,
        THEN conjunct2] h7 by (rule mp)
  have 2: "get_dominant_emotion ?a4 = Inr ''happy''"
    using get_dominant_emotion_spec [of ?a4, THEN conjunct2, THEN conjunct2, THEN conjunct2,
        THEN conjunct1] h4 by (rule mp)
  have e: "emotion_history (PersonalityAdapter_init ''friend'') = []"
    by (simp add: PersonalityAdapter_init_def)
  have 3: "get_dominant_emotion (PersonalityAdapter_init ''friend'') = Inr ''neutral''"
    using get_dominant_emotion_spec [of "PersonalityAdapter_init ''friend''", THEN conjunct1] e
    by (rule mp)
  show ?thesis using ne 1 2 3 e by blast
qed

section \<open>Properties of the detector\<close>

subsection \<open>Parsing\<close>

lemma neutral_valid: "valid_result (get_neutral_emotion utc)"
  by (simp add: valid_result_def get_neutral_emotion_def is_valid_emotion_def
        EMOTION_CATEGORIES_def)

lemma parse_data_object:
  assumes "py_float env (dict_get kvs ''confidence'' (JFloat 0.5)) = Inr c"
      and "py_float env (dict_get kvs ''intensity'' (JFloat 0.5)) = Inr i"
  shows "parse_data env utc (JObject kvs) =
     Inr \<lparr>emotion = (case dict_get kvs ''emotion'' (JString ''neutral'') of
                       JString s \<Rightarrow> if \<not> is_valid_emotion s then ''neutral'' else s
                     | _ \<Rightarrow> ''neutral''),
          confidence = c, intensity = i,
          valence = fst (get_valence_arousal
                      (case dict_get kvs ''emotion'' (JString ''neutral'') of
                         JString s \<Rightarrow> if \<not> is_valid_emotion s then ''neutral'' else s
                       | _ \<Rightarrow> ''neutral'')),
          arousal = snd (get_valence_arousal
                      (case dict_get kvs ''emotion'' (JString ''neutral'') of
                         JString s \<Rightarrow> if \<not> is_valid_emotion s then ''neutral'' else s
                       | _ \<Rightarrow> ''neutral'')),
          detected_at = utc\<rparr>"
  using assms by (simp add: parse_data_def Let_def)

lemma label_valid:
  "is_valid_emotion (case v of
       JString s \<Rightarrow> if \<not> is_valid_emotion s then ''neutral'' else s
     | _ \<Rightarrow> ''neutral'')"
  by (cases v) (simp_all add: is_valid_emotion_def EMOTION_CATEGORIES_def)

lemma parse_data_valid: "parse_data env utc data = Inr r \<Longrightarrow> valid_result r"
proof (cases data)
  case (JObject kvs)
  assume r: "parse_data env utc data = Inr r"
  then obtain c i where
    c: "py_float env (dict_get kvs ''confidence'' (JFloat 0.5)) = Inr c" and
    i: "py_float env (dict_get kvs ''intensity'' (JFloat 0.5)) = Inr i"
    unfolding JObject parse_data_def Let_def
    by (auto split: sum.splits)
  from r show ?thesis
    unfolding JObject parse_data_object [OF c i] valid_result_def
    using label_valid by auto
qed (simp_all add: parse_data_def)

lemma parse_response_valid: "valid_result (parse_response env utc txt)"
proof (cases "parse_response_body env utc txt")
  case (Inl e)
  then show ?thesis by (simp add: parse_response_def neutral_valid)
next
  case (Inr r)
  then have "valid_result r"
    by (auto simp: parse_response_body_def split: option.splits dest: parse_data_valid)
  with Inr show ?thesis by (simp add: parse_response_def)
qed

lemma analyze_valid: "analyze_with_gemini env utc remote text = Inr r \<Longrightarrow> valid_result r"
  by (auto simp: analyze_with_gemini_def parse_response_valid split: reply.splits)

subsection \<open>The paths of \<^verbatim>\<open>detect_emotion\<close>\<close>

lemma detect_debounced:
  assumes "\<not> force"
      and "t_debounce clk - last_analysis_time d < of_int (min_analysis_interval d)"
  shows "detect_emotion env clk remote d text force = (Inr (last_emotion d), d)"
  using assms by (simp add: detect_emotion_def)

lemma detect_cache_hit:
  assumes "force \<or> \<not> t_debounce clk - last_analysis_time d < of_int (min_analysis_interval d)"
      and "cache_get (t_cache_get clk) (text_hash_of env text) (cache d) = (Some e, c1)"
  shows "detect_emotion env clk remote d text force = (Inr e, d\<lparr>cache := c1\<rparr>)"
  using assms by (auto simp: detect_emotion_def)

lemma detect_rate_limited:
  assumes "force \<or> \<not> t_debounce clk - last_analysis_time d < of_int (min_analysis_interval d)"
      and "cache_get (t_cache_get clk) (text_hash_of env text) (cache d) = (None, c1)"
      and "can_call (t_can_call clk) (rate_limiter d) = (False, rl1)"
      and "time_until_next_call (t_wait_check clk) (t_wait_now clk) rl1 = (w, rl2)"
  shows "detect_emotion env clk remote d text force =
     (case w of Inl err \<Rightarrow> Inl err | Inr wait_time \<Rightarrow> Inr (last_emotion d),
      d\<lparr>cache := c1, rate_limiter := rl2\<rparr>)"
  using assms by (cases w) (auto simp: detect_emotion_def)

lemma detect_at_analysis:
  assumes "reaches_analysis env clk d text force"
  shows "detect_emotion env clk remote d text force =
     (if \<not> has_client d
      then (Inr (get_neutral_emotion (utc_now clk)), before_analysis env clk d text)
      else (case analyze_with_gemini env (utc_now clk) remote text of
              Inl err \<Rightarrow> (Inr (last_emotion d), before_analysis env clk d text)
            | Inr emotion_data \<Rightarrow>
                (Inr emotion_data,
                 (before_analysis env clk d text)
                   \<lparr>rate_limiter := record_call (t_record clk)
                                      (rate_limiter (before_analysis env clk d text)),
                    last_analysis_time := t_analysis clk,
                    last_emotion := emotion_data,
                    cache := cache_set (t_cache_set clk) (text_hash_of env text) emotion_data
                               (cache (before_analysis env clk d text))\<rparr>)))"
proof -
  obtain c1 where c: "cache_get (t_cache_get clk) (text_hash_of env text) (cache d) = (None, c1)"
    using assms unfolding reaches_analysis_def
    by (cases "cache_get (t_cache_get clk) (text_hash_of env text) (cache d)") auto
  obtain rl1 where r: "can_call (t_can_call clk) (rate_limiter d) = (True, rl1)"
    using assms unfolding reaches_analysis_def
    by (cases "can_call (t_can_call clk) (rate_limiter d)") auto
  have nd: "force \<or> \<not> t_debounce clk - last_analysis_time d < of_int (min_analysis_interval d)"
    using assms unfolding reaches_analysis_def by blast
  show ?thesis
    using nd
    by (cases "analyze_with_gemini env (utc_now clk) remote text")
       (auto simp: detect_emotion_def before_analysis_def c r)
qed

subsection \<open>Evaluating the examples\<close>

lemma unfence_happy_text: "unfence happy_text = happy_text"
  by code_simp

lemma unfence_loud_text: "unfence loud_text = loud_text"
  by code_simp

lemma unfence_not_json: "unfence ''not json'' = ''not json''"
  by code_simp

lemma happy_not_loud: "loud_text \<noteq> happy_text"
  by code_simp

lemma not_json_neither: "''not json'' \<noteq> happy_text \<and> ''not json'' \<noteq> loud_text"
  by code_simp

lemma hash_glad: "text_hash_of example_runtime ''I am glad'' = ''9''"
  by code_simp

lemma hash_oh_no: "text_hash_of example_runtime ''oh no'' = ''5''"
  by code_simp

lemma hash_so_what: "text_hash_of example_runtime ''so what'' = ''7''"
  by code_simp

lemma parse_happy:
  "parse_response example_runtime utc (Some happy_text) =
     \<lparr>emotion = ''happy'', confidence = 0.9, intensity = 0.7, valence = 0.8, arousal = 0.6,
      detected_at = utc\<rparr>"
  by (simp add: parse_response_def parse_response_body_def unfence_happy_text
        example_runtime_def happy_payload_def parse_data_def dict_get_def py_float_def
        is_valid_emotion_def EMOTION_CATEGORIES_def get_valence_arousal_def
        EMOTION_VALENCE_AROUSAL_def)

lemma parse_not_json_body:
  "parse_response_body example_runtime utc (Some ''not json'') = Inl JSONDecodeError"
  using not_json_neither
  by (simp add: parse_response_body_def unfence_not_json example_runtime_def)

lemma init_reaches_analysis:
  "0 < calls_allowed \<Longrightarrow> 5 \<le> t \<Longrightarrow>
   reaches_analysis env (clock_at t utc)
     (EmotionDetector_init utc0 client_ok calls_allowed 60 30 5) text force"
  by (simp add: reaches_analysis_def EmotionDetector_init_def clock_at_def cache_get_def
        EmotionCache_init_def can_call_def RateLimiter_init_def)

subsection \<open>Parsing: coercion without clamping\<close>

text \<open>
  C2, as the code has it. The confidence and the intensity are not clamped: the reply
  with confidence 1.5 and intensity -2 gives a result with confidence 1.5 and intensity
  -2, outside the interval from 0 to 1. Its label, outside the taxonomy, is replaced by
  neutral.
\<close>

theorem parse_response_unclamped_counterexample:
  "parse_response example_runtime ''2026-01-15T04:00:00'' (Some loud_text) =
     \<lparr>emotion = ''neutral'', confidence = 1.5, intensity = - 2, valence = 0.0, arousal = 0.5,
      detected_at = ''2026-01-15T04:00:00''\<rparr>
   \<and> \<not> confidence (parse_response example_runtime ''2026-01-15T04:00:00'' (Some loud_text)) \<le> 1
   \<and> \<not> 0 \<le> intensity (parse_response example_runtime ''2026-01-15T04:00:00'' (Some loud_text))"
  using happy_not_loud
  by (simp add: parse_response_def parse_response_body_def unfence_loud_text
        example_runtime_def loud_payload_def parse_data_def dict_get_def py_float_def
        is_valid_emotion_def EMOTION_CATEGORIES_def get_valence_arousal_def
        EMOTION_VALENCE_AROUSAL_def)

text \<open>
  C2, amended. For a response that parses as a JSON object whose confidence and
  intensity (0.5 when absent) can be coerced to float, the result carries exactly those
  two floats, not clamped; its label is the payload's label when that is a string of the
  taxonomy and neutral otherwise, so it is always one of the 8 categories; its valence
  and arousal are looked up from that label.
\<close>

theorem parse_response_coerces_without_clamping:
  assumes "json_loads env (unfence txt) = Some (JObject kvs)"
      and "py_float env (dict_get kvs ''confidence'' (JFloat 0.5)) = Inr c"
      and "py_float env (dict_get kvs ''intensity'' (JFloat 0.5)) = Inr i"
  shows "confidence (parse_response env utc (Some txt)) = c
       \<and> intensity (parse_response env utc (Some txt)) = i
       \<and> emotion (parse_response env utc (Some txt)) =
           (case dict_get kvs ''emotion'' (JString ''neutral'') of
              JString s \<Rightarrow> if s \<in> set EMOTION_CATEGORIES then s else ''neutral''
            | _ \<Rightarrow> ''neutral'')
       \<and> emotion (parse_response env utc (Some txt)) \<in> set EMOTION_CATEGORIES
       \<and> (valence (parse_response env utc (Some txt)),
            arousal (parse_response env utc (Some txt)))
           = get_valence_arousal (emotion (parse_response env utc (Some txt)))"
proof -
  let ?lbl = "case dict_get kvs ''emotion'' (JString ''neutral'') of
       JString s \<Rightarrow> if \<not> is_valid_emotion s then ''neutral'' else s
     | _ \<Rightarrow> ''neutral''"
  have r: "parse_response env utc (Some txt) =
      \<lparr>emotion = ?lbl, confidence = c, intensity = i,
       valence = fst (get_valence_arousal ?lbl), arousal = snd (get_valence_arousal ?lbl),
       detected_at = utc\<rparr>"
    by (simp add: parse_response_def parse_response_body_def assms(1)
          parse_data_object [OF assms(2) assms(3)])
  have v: "?lbl \<in> set EMOTION_CATEGORIES"
    using label_valid [of "dict_get kvs ''emotion'' (JString ''neutral'')"]
    by (simp add: is_valid_emotion_def)
  have l: "?lbl = (case dict_get kvs ''emotion'' (JString ''neutral'') of
              JString s \<Rightarrow> if s \<in> set EMOTION_CATEGORIES then s else ''neutral''
            | _ \<Rightarrow> ''neutral'')"
    by (cases "dict_get kvs ''emotion'' (JString ''neutral'')")
       (simp_all add: is_valid_emotion_def)
  show ?thesis unfolding r using v l by simp
qed

theorem parse_response_coerces_without_clamping_witness:
  "json_loads example_runtime (unfence loud_text) = Some loud_payload
   \<and> confidence (parse_response example_runtime ''2026-01-15T04:00:00'' (Some loud_text)) = 1.5
   \<and> intensity (parse_response example_runtime ''2026-01-15T04:00:00'' (Some loud_text)) = - 2
   \<and> emotion (parse_response example_runtime ''2026-01-15T04:00:00'' (Some loud_text))
       = ''neutral''"
proof -
  let ?kvs = "[(''emotion'', JString ''furious''), (''confidence'', JFloat 1.5),
              (''intensity'', JInt (- 2))]"
  have 1: "json_loads example_runtime (unfence loud_text) = Some (JObject ?kvs)"
    using happy_not_loud
    by (simp add: unfence_loud_text example_runtime_def loud_payload_def)
  have 2: "py_float example_runtime (dict_get ?kvs ''confidence'' (JFloat 0.5)) = Inr 1.5"
    by (simp add: dict_get_def py_float_def)
  have 3: "py_float example_runtime (dict_get ?kvs ''intensity'' (JFloat 0.5)) = Inr (- 2)"
    by (simp add: dict_get_def py_float_def)
  from parse_response_coerces_without_clamping [OF 1 2 3, of "''2026-01-15T04:00:00''"]
  show ?thesis using 1
    by (simp add: dict_get_def EMOTION_CATEGORIES_def loud_payload_def)
qed

subsection \<open>The fallbacks of \<^verbatim>\<open>detect_emotion\<close>\<close>

lemma before_analysis_fields:
  "last_emotion (before_analysis env clk d text) = last_emotion d"
  "last_analysis_time (before_analysis env clk d text) = last_analysis_time d"
  "has_client (before_analysis env clk d text) = has_client d"
  "min_analysis_interval (before_analysis env clk d text) = min_analysis_interval d"
  by (simp_all add: before_analysis_def)

text \<open>
  C3, as the code has it. After a successful analysis that found the emotion happy, a
  reply that is not JSON makes \<^verbatim>\<open>detect_emotion\<close> return the neutral default, not the last
  known result. And with no client, a detector built at one instant and called at
  another returns a new neutral default, which is not the last emotion it holds.
\<close>

theorem malformed_reply_counterexample:
  "last_emotion
     (snd (detect_emotion example_runtime (clock_at 1000 ''2026-01-15T04:00:00'')
            (\<lambda>prompt. Text happy_text)
            (EmotionDetector_init ''2026-01-15T03:00:00'' True 10 60 30 5) ''I am glad'' False))
     = \<lparr>emotion = ''happy'', confidence = 0.9, intensity = 0.7, valence = 0.8, arousal = 0.6,
        detected_at = ''2026-01-15T04:00:00''\<rparr>
   \<and> fst (detect_emotion example_runtime (clock_at 1100 ''2026-01-15T04:01:40'')
            (\<lambda>prompt. Text ''not json'')
            (snd (detect_emotion example_runtime (clock_at 1000 ''2026-01-15T04:00:00'')
                   (\<lambda>prompt. Text happy_text)
                   (EmotionDetector_init ''2026-01-15T03:00:00'' True 10 60 30 5)
                   ''I am glad'' False))
            ''oh no'' False)
     = Inr \<lparr>emotion = ''neutral'', confidence = 1.0, intensity = 0.5, valence = 0.0,
            arousal = 0.5, detected_at = ''2026-01-15T04:01:40''\<rparr>
   \<and> fst (detect_emotion example_runtime (clock_at 1000 ''2026-01-15T04:00:00'')
            (\<lambda>prompt. Raises)
            (EmotionDetector_init ''2026-01-15T03:00:00'' False 10 60 30 5) ''I am glad'' False)
     = Inr \<lparr>emotion = ''neutral'', confidence = 1.0, intensity = 0.5, valence = 0.0,
            arousal = 0.5, detected_at = ''2026-01-15T04:00:00''\<rparr>
   \<and> last_emotion (EmotionDetector_init ''2026-01-15T03:00:00'' False 10 60 30 5)
     = \<lparr>emotion = ''neutral'', confidence = 1.0, intensity = 0.5, valence = 0.0,
        arousal = 0.5, detected_at = ''2026-01-15T03:00:00''\<rparr>"
proof -
  let ?d0 = "EmotionDetector_init ''2026-01-15T03:00:00'' True 10 60 30 5"
  let ?c1 = "clock_at 1000 ''2026-01-15T04:00:00''"
  let ?c2 = "clock_at 1100 ''2026-01-15T04:01:40''"
  let ?happy = "\<lparr>emotion = ''happy'', confidence = 0.9, intensity = 0.7, valence = 0.8,
      arousal = 0.6, detected_at = ''2026-01-15T04:00:00''\<rparr>"
  have r1: "reaches_analysis example_runtime ?c1 ?d0 ''I am glad'' False"
    by (rule init_reaches_analysis) simp_all
  have a1: "analyze_with_gemini example_runtime (utc_now ?c1) (\<lambda>prompt. Text happy_text)
      ''I am glad'' = Inr ?happy"
    by (simp add: analyze_with_gemini_def parse_happy clock_at_def)
  have c0: "has_client ?d0" by (simp add: EmotionDetector_init_def)
  let ?d1 = "snd (detect_emotion example_runtime ?c1 (\<lambda>prompt. Text happy_text) ?d0
      ''I am glad'' False)"
  have d1: "?d1 = \<lparr>has_client = True,
      rate_limiter = \<lparr>max_calls = 10, time_window = 60, calls = [1000]\<rparr>,
      cache = \<lparr>ttl_seconds = 30,
               cache_dict = [''9'' \<mapsto> \<lparr>ce_emotion = ?happy, ce_timestamp = 1000\<rparr>]\<rparr>,
      min_analysis_interval = 5, last_analysis_time = 1000, last_emotion = ?happy\<rparr>"
    unfolding detect_at_analysis [OF r1] a1
    by (simp add: c0 before_analysis_def hash_glad EmotionDetector_init_def clock_at_def
          cache_get_def cache_set_def EmotionCache_init_def can_call_def record_call_def
          RateLimiter_init_def)
  have r2: "reaches_analysis example_runtime ?c2 ?d1 ''oh no'' False"
    unfolding d1
    by (simp add: reaches_analysis_def hash_oh_no clock_at_def cache_get_def can_call_def)
  have a2: "analyze_with_gemini example_runtime (utc_now ?c2) (\<lambda>prompt. Text ''not json'')
      ''oh no'' = Inr (get_neutral_emotion ''2026-01-15T04:01:40'')"
    by (simp add: analyze_with_gemini_def parse_response_def parse_not_json_body clock_at_def)
  have c1: "has_client ?d1" unfolding d1 by simp
  have 2: "fst (detect_emotion example_runtime ?c2 (\<lambda>prompt. Text ''not json'') ?d1
      ''oh no'' False) = Inr (get_neutral_emotion ''2026-01-15T04:01:40'')"
    unfolding detect_at_analysis [OF r2] using c1 a2 by simp
  let ?e0 = "EmotionDetector_init ''2026-01-15T03:00:00'' False 10 60 30 5"
  have r3: "reaches_analysis example_runtime ?c1 ?e0 ''I am glad'' False"
    by (rule init_reaches_analysis) simp_all
  have 3: "fst (detect_emotion example_runtime ?c1 (\<lambda>prompt. Raises) ?e0 ''I am glad'' False)
      = Inr (get_neutral_emotion ''2026-01-15T04:00:00'')"
    unfolding detect_at_analysis [OF r3]
    by (simp add: EmotionDetector_init_def clock_at_def)
  have 4: "last_emotion ?e0 = get_neutral_emotion ''2026-01-15T03:00:00''"
    by (simp add: EmotionDetector_init_def)
  have 1: "last_emotion ?d1 = ?happy" unfolding d1 by simp
  show ?thesis
    using 1 2 3 4 unfolding get_neutral_emotion_def by simp
qed

text \<open>
  C3, amended. For a call that reaches the analysis step: with no client it returns the
  neutral default, whatever the last known result is; when the remote call raises it
  returns the last known result and keeps it; when the reply cannot be parsed it returns
  the neutral default and stores it as the last known result.
\<close>

theorem analysis_fallbacks:
  "(reaches_analysis env clk d text force \<and> \<not> has_client d \<longrightarrow>
      fst (detect_emotion env clk remote d text force) = Inr (get_neutral_emotion (utc_now clk))
      \<and> last_emotion (snd (detect_emotion env clk remote d text force)) = last_emotion d)
   \<and> (reaches_analysis env clk d text force \<and> has_client d
        \<and> remote (build_prompt text) = Raises \<longrightarrow>
      fst (detect_emotion env clk remote d text force) = Inr (last_emotion d)
      \<and> last_emotion (snd (detect_emotion env clk remote d text force)) = last_emotion d
      \<and> last_analysis_time (snd (detect_emotion env clk remote d text force))
          = last_analysis_time d)
   \<and> (reaches_analysis env clk d text force \<and> has_client d
        \<and> remote (build_prompt text) = Text s
        \<and> parse_response_body env (utc_now clk) (Some s) = Inl e \<longrightarrow>
      fst (detect_emotion env clk remote d text force) = Inr (get_neutral_emotion (utc_now clk))
      \<and> last_emotion (snd (detect_emotion env clk remote d text force))
          = get_neutral_emotion (utc_now clk))"
proof -
  have none: "fst (detect_emotion env clk remote d text force)
        = Inr (get_neutral_emotion (utc_now clk))
      \<and> last_emotion (snd (detect_emotion env clk remote d text force)) = last_emotion d"
    if "reaches_analysis env clk d text force" "\<not> has_client d"
    unfolding detect_at_analysis [OF that(1)] using that(2)
    by (simp add: before_analysis_fields)
  have raises: "fst (detect_emotion env clk remote d text force) = Inr (last_emotion d)
      \<and> last_emotion (snd (detect_emotion env clk remote d text force)) = last_emotion d
      \<and> last_analysis_time (snd (detect_emotion env clk remote d text force))
          = last_analysis_time d"
    if "reaches_analysis env clk d text force" "has_client d"
       "remote (build_prompt text) = Raises"
  proof -
    have "analyze_with_gemini env (utc_now clk) remote text = Inl RemoteError"
      using that(3) by (simp add: analyze_with_gemini_def)
    then show ?thesis
      unfolding detect_at_analysis [OF that(1)] using that(2)
      by (simp add: before_analysis_fields)
  qed
  have malformed: "fst (detect_emotion env clk remote d text force)
        = Inr (get_neutral_emotion (utc_now clk))
      \<and> last_emotion (snd (detect_emotion env clk remote d text force))
          = get_neutral_emotion (utc_now clk)"
    if "reaches_analysis env clk d text force" "has_client d"
       "remote (build_prompt text) = Text s"
       "parse_response_body env (utc_now clk) (Some s) = Inl e"
  proof -
    have "analyze_with_gemini env (utc_now clk) remote text
        = Inr (get_neutral_emotion (utc_now clk))"
      using that(3) that(4) by (simp add: analyze_with_gemini_def parse_response_def)
    then show ?thesis
      unfolding detect_at_analysis [OF that(1)] using that(2) by simp
  qed
  show ?thesis using none raises malformed by blast
qed

theorem analysis_fallbacks_witness:
  "reaches_analysis example_runtime (clock_at 1000 ''2026-01-15T04:00:00'')
     (EmotionDetector_init ''2026-01-15T03:00:00'' False 10 60 30 5) ''I am glad'' False
   \<and> \<not> has_client (EmotionDetector_init ''2026-01-15T03:00:00'' False 10 60 30 5)
   \<and> fst (detect_emotion example_runtime (clock_at 1000 ''2026-01-15T04:00:00'')
            (\<lambda>prompt. Raises)
            (EmotionDetector_init ''2026-01-15T03:00:00'' False 10 60 30 5) ''I am glad'' False)
     = Inr (get_neutral_emotion ''2026-01-15T04:00:00'')
   \<and> reaches_analysis example_runtime (clock_at 1000 ''2026-01-15T04:00:00'')
     (EmotionDetector_init ''2026-01-15T03:00:00'' True 10 60 30 5) ''I am glad'' False
   \<and> has_client (EmotionDetector_init ''2026-01-15T03:00:00'' True 10 60 30 5)
   \<and> fst (detect_emotion example_runtime (clock_at 1000 ''2026-01-15T04:00:00'')
            (\<lambda>prompt. Raises)
            (EmotionDetector_init ''2026-01-15T03:00:00'' True 10 60 30 5) ''I am glad'' False)
     = Inr (get_neutral_emotion ''2026-01-15T03:00:00'')
   \<and> parse_response_body example_runtime ''2026-01-15T04:00:00'' (Some ''not json'')
     = Inl JSONDecodeError
   \<and> fst (detect_emotion example_runtime (clock_at 1000 ''2026-01-15T04:00:00'')
            (\<lambda>prompt. Text ''not json'')
            (EmotionDetector_init ''2026-01-15T03:00:00'' True 10 60 30 5) ''I am glad'' False)
     = Inr (get_neutral_emotion ''2026-01-15T04:00:00'')"
proof -
  let ?c = "clock_at 1000 ''2026-01-15T04:00:00''"
  let ?off = "EmotionDetector_init ''2026-01-15T03:00:00'' False 10 60 30 5"
  let ?on = "EmotionDetector_init ''2026-01-15T03:00:00'' True 10 60 30 5"
  have u: "utc_now ?c = ''2026-01-15T04:00:00''" by (simp add: clock_at_def)
  have r_off: "reaches_analysis example_runtime ?c ?off ''I am glad'' False"
    by (rule init_reaches_analysis) simp_all
  have r_on: "reaches_analysis example_runtime ?c ?on ''I am glad'' False"
    by (rule init_reaches_analysis) simp_all
  have h_off: "\<not> has_client ?off" by (simp add: EmotionDetector_init_def)
  have h_on: "has_client ?on" by (simp add: EmotionDetector_init_def)
  have l_on: "last_emotion ?on = get_neutral_emotion ''2026-01-15T03:00:00''"
    by (simp add: EmotionDetector_init_def)
  have p: "parse_response_body example_runtime (utc_now ?c) (Some ''not json'')
      = Inl JSONDecodeError"
    by (rule parse_not_json_body)
  have 1: "fst (detect_emotion example_runtime ?c (\<lambda>prompt. Raises) ?off ''I am glad'' False)
      = Inr (get_neutral_emotion (utc_now ?c))"
    using analysis_fallbacks [of example_runtime ?c ?off "''I am glad''" False
        "\<lambda>prompt. Raises"] r_off h_off by blast
  have 2: "fst (detect_emotion example_runtime ?c (\<lambda>prompt. Raises) ?on ''I am glad'' False)
      = Inr (last_emotion ?on)"
    using analysis_fallbacks [of example_runtime ?c ?on "''I am glad''" False
        "\<lambda>prompt. Raises"] r_on h_on by blast
  have 3: "fst (detect_emotion example_runtime ?c (\<lambda>prompt. Text ''not json'') ?on
      ''I am glad'' False) = Inr (get_neutral_emotion (utc_now ?c))"
    using analysis_fallbacks [of example_runtime ?c ?on "''I am glad''" False
        "\<lambda>prompt. Text ''not json''" "''not json''" JSONDecodeError] r_on h_on p by blast
  show ?thesis
    using r_off h_off r_on h_on 1 2 3 p unfolding u l_on by blast
qed

subsection \<open>Debounce\<close>

text \<open>
  C5, as the code has it. Two non-forced calls one second apart, with an interval of 5
  seconds, return different results: the remote call of the first raises, so the first
  returns the neutral emotion the detector was built with and records no analysis; the
  second is therefore not debounced and returns what the remote service found.
\<close>

theorem debounce_counterexample:
  "fst (detect_emotion example_runtime (clock_at 1000 ''2026-01-15T04:00:00'')
          (\<lambda>prompt. Raises)
          (EmotionDetector_init ''2026-01-15T03:00:00'' True 10 60 30 5) ''oh no'' False)
     = Inr \<lparr>emotion = ''neutral'', confidence = 1.0, intensity = 0.5, valence = 0.0,
            arousal = 0.5, detected_at = ''2026-01-15T03:00:00''\<rparr>
   \<and> fst (detect_emotion example_runtime (clock_at 1001 ''2026-01-15T04:00:01'')
          (\<lambda>prompt. Text happy_text)
          (snd (detect_emotion example_runtime (clock_at 1000 ''2026-01-15T04:00:00'')
                 (\<lambda>prompt. Raises)
                 (EmotionDetector_init ''2026-01-15T03:00:00'' True 10 60 30 5) ''oh no'' False))
          ''I am glad'' False)
     = Inr \<lparr>emotion = ''happy'', confidence = 0.9, intensity = 0.7, valence = 0.8,
            arousal = 0.6, detected_at = ''2026-01-15T04:00:01''\<rparr>
   \<and> t_debounce (clock_at 1001 ''2026-01-15T04:00:01'')
       - t_debounce (clock_at 1000 ''2026-01-15T04:00:00'')
     < of_int (min_analysis_interval
                (EmotionDetector_init ''2026-01-15T03:00:00'' True 10 60 30 5))"
proof -
  let ?d0 = "EmotionDetector_init ''2026-01-15T03:00:00'' True 10 60 30 5"
  let ?c1 = "clock_at 1000 ''2026-01-15T04:00:00''"
  let ?c2 = "clock_at 1001 ''2026-01-15T04:00:01''"
  have r1: "reaches_analysis example_runtime ?c1 ?d0 ''oh no'' False"
    by (rule init_reaches_analysis) simp_all
  have a1: "analyze_with_gemini example_runtime (utc_now ?c1) (\<lambda>prompt. Raises) ''oh no''
      = Inl RemoteError"
    by (simp add: analyze_with_gemini_def)
  have c0: "has_client ?d0" by (simp add: EmotionDetector_init_def)
  let ?d1 = "snd (detect_emotion example_runtime ?c1 (\<lambda>prompt. Raises) ?d0 ''oh no'' False)"
  have d1: "?d1 = ?d0"
    unfolding detect_at_analysis [OF r1] a1
    by (simp add: c0 before_analysis_def EmotionDetector_init_def clock_at_def
          cache_get_def EmotionCache_init_def can_call_def RateLimiter_init_def)
  have 1: "fst (detect_emotion example_runtime ?c1 (\<lambda>prompt. Raises) ?d0 ''oh no'' False)
      = Inr (get_neutral_emotion ''2026-01-15T03:00:00'')"
    unfolding detect_at_analysis [OF r1] a1
    by (simp add: c0 EmotionDetector_init_def)
  have r2: "reaches_analysis example_runtime ?c2 ?d0 ''I am glad'' False"
    by (rule init_reaches_analysis) simp_all
  have a2: "analyze_with_gemini example_runtime (utc_now ?c2) (\<lambda>prompt. Text happy_text)
      ''I am glad'' = Inr \<lparr>emotion = ''happy'', confidence = 0.9, intensity = 0.7,
        valence = 0.8, arousal = 0.6, detected_at = ''2026-01-15T04:00:01''\<rparr>"
    by (simp add: analyze_with_gemini_def parse_happy clock_at_def)
  have 2: "fst (detect_emotion example_runtime ?c2 (\<lambda>prompt. Text happy_text) ?d0
      ''I am glad'' False) = Inr \<lparr>emotion = ''happy'', confidence = 0.9, intensity = 0.7,
        valence = 0.8, arousal = 0.6, detected_at = ''2026-01-15T04:00:01''\<rparr>"
    unfolding detect_at_analysis [OF r2] a2 by (simp add: c0)
  have 3: "t_debounce ?c2 - t_debounce ?c1 < of_int (min_analysis_interval ?d0)"
    by (simp add: clock_at_def EmotionDetector_init_def)
  show ?thesis
    unfolding d1 using 1 2 3 unfolding get_neutral_emotion_def by simp
qed

text \<open>
  C5, amended. A non-forced call made less than the minimum interval after the last
  successful analysis returns the last known result and leaves the detector unchanged,
  whatever its text. So after a call that analysed its text successfully, a non-forced
  call within the interval returns the very result of that call, whatever its text, the
  runtime and the remote service.
\<close>

theorem debounce_after_success:
  "(\<not> force \<and> t_debounce clk - last_analysis_time d < of_int (min_analysis_interval d) \<longrightarrow>
      detect_emotion env clk remote d text force = (Inr (last_emotion d), d))
   \<and> (reaches_analysis env clk d text force \<and> has_client d
        \<and> analyze_with_gemini env (utc_now clk) remote text = Inr r
        \<and> t_debounce clk2 - t_analysis clk < of_int (min_analysis_interval d) \<longrightarrow>
      fst (detect_emotion env clk remote d text force) = Inr r
      \<and> detect_emotion env2 clk2 remote2 (snd (detect_emotion env clk remote d text force))
            text2 False
          = (Inr r, snd (detect_emotion env clk remote d text force)))"
proof -
  have first: "detect_emotion env clk remote d text force = (Inr (last_emotion d), d)"
    if "\<not> force" "t_debounce clk - last_analysis_time d < of_int (min_analysis_interval d)"
    using that by (rule detect_debounced)
  have second: "fst (detect_emotion env clk remote d text force) = Inr r
      \<and> detect_emotion env2 clk2 remote2 (snd (detect_emotion env clk remote d text force))
            text2 False
          = (Inr r, snd (detect_emotion env clk remote d text force))"
    if ra: "reaches_analysis env clk d text force" and hc: "has_client d"
      and an: "analyze_with_gemini env (utc_now clk) remote text = Inr r"
      and near: "t_debounce clk2 - t_analysis clk < of_int (min_analysis_interval d)"
  proof -
    let ?d1 = "snd (detect_emotion env clk remote d text force)"
    have res: "fst (detect_emotion env clk remote d text force) = Inr r"
      unfolding detect_at_analysis [OF ra] an using hc by simp
    have le: "last_emotion ?d1 = r"
      unfolding detect_at_analysis [OF ra] an using hc by simp
    have lt: "last_analysis_time ?d1 = t_analysis clk"
      unfolding detect_at_analysis [OF ra] an using hc by simp
    have mi: "min_analysis_interval ?d1 = min_analysis_interval d"
      unfolding detect_at_analysis [OF ra] an using hc by (simp add: before_analysis_fields)
    have "t_debounce clk2 - last_analysis_time ?d1 < of_int (min_analysis_interval ?d1)"
      unfolding lt mi using near .
    then have "detect_emotion env2 clk2 remote2 ?d1 text2 False = (Inr (last_emotion ?d1), ?d1)"
      by (rule detect_debounced [OF _ _, rotated]) simp
    then show ?thesis using res le by simp
  qed
  show ?thesis using first second by blast
qed

theorem debounce_after_success_witness:
  "reaches_analysis example_runtime (clock_at 1000 ''2026-01-15T04:00:00'')
     (EmotionDetector_init ''2026-01-15T03:00:00'' True 10 60 30 5) ''I am glad'' False
   \<and> has_client (EmotionDetector_init ''2026-01-15T03:00:00'' True 10 60 30 5)
   \<and> t_debounce (clock_at 1002 ''2026-01-15T04:00:02'')
       - t_analysis (clock_at 1000 ''2026-01-15T04:00:00'')
     < of_int (min_analysis_interval (EmotionDetector_init ''2026-01-15T03:00:00'' True 10 60 30 5))
   \<and> fst (detect_emotion example_runtime (clock_at 1002 ''2026-01-15T04:00:02'')
          (\<lambda>prompt. Text loud_text)
          (snd (detect_emotion example_runtime (clock_at 1000 ''2026-01-15T04:00:00'')
                 (\<lambda>prompt. Text happy_text)
                 (EmotionDetector_init ''2026-01-15T03:00:00'' True 10 60 30 5)
                 ''I am glad'' False))
          ''so what'' False)
     = Inr \<lparr>emotion = ''happy'', confidence = 0.9, intensity = 0.7, valence = 0.8,
            arousal = 0.6, detected_at = ''2026-01-15T04:00:00''\<rparr>"
proof -
  let ?d0 = "EmotionDetector_init ''2026-01-15T03:00:00'' True 10 60 30 5"
  let ?c1 = "clock_at 1000 ''2026-01-15T04:00:00''"
  let ?c2 = "clock_at 1002 ''2026-01-15T04:00:02''"
  let ?happy = "\<lparr>emotion = ''happy'', confidence = 0.9, intensity = 0.7, valence = 0.8,
      arousal = 0.6, detected_at = ''2026-01-15T04:00:00''\<rparr>"
  have r1: "reaches_analysis example_runtime ?c1 ?d0 ''I am glad'' False"
    by (rule init_reaches_analysis) simp_all
  have c0: "has_client ?d0" by (simp add: EmotionDetector_init_def)
  have a1: "analyze_with_gemini example_runtime (utc_now ?c1) (\<lambda>prompt. Text happy_text)
      ''I am glad'' = Inr ?happy"
    by (simp add: analyze_with_gemini_def parse_happy clock_at_def)
  have near: "t_debounce ?c2 - t_analysis ?c1 < of_int (min_analysis_interval ?d0)"
    by (simp add: clock_at_def EmotionDetector_init_def)
  have "detect_emotion example_runtime ?c2 (\<lambda>prompt. Text loud_text)
          (snd (detect_emotion example_runtime ?c1 (\<lambda>prompt. Text happy_text) ?d0
                 ''I am glad'' False)) ''so what'' False
      = (Inr ?happy, snd (detect_emotion example_runtime ?c1 (\<lambda>prompt. Text happy_text) ?d0
                 ''I am glad'' False))"
    using debounce_after_success [of False ?c1 ?d0 example_runtime "\<lambda>prompt. Text happy_text"
        "''I am glad''" ?happy ?c2 example_runtime "\<lambda>prompt. Text loud_text" "''so what''"]
      r1 c0 a1 near by blast
  then show ?thesis using r1 c0 near by simp
qed

subsection \<open>Results are valid; exceptions\<close>

lemma init_ok:
  "detector_ok (EmotionDetector_init utc client_ok rate_limit_calls rate_limit_window
     cache_ttl interval)"
  by (simp add: detector_ok_def EmotionDetector_init_def EmotionCache_init_def neutral_valid)

lemma cache_get_ok:
  assumes "\<forall>k e. cache_dict c k = Some e \<longrightarrow> valid_result (ce_emotion e)"
      and "cache_get now key c = (res, c')"
  shows "(\<forall>k e. cache_dict c' k = Some e \<longrightarrow> valid_result (ce_emotion e))
       \<and> (\<forall>e. res = Some e \<longrightarrow> valid_result e)"
proof (cases "cache_dict c key")
  case None
  with assms show ?thesis by (simp add: cache_get_def)
next
  case (Some cached)
  show ?thesis
  proof (cases "now - ce_timestamp cached > of_int (ttl_seconds c)")
    case True
    with Some assms(2) have "res = None" and "cache_dict c' = (cache_dict c)(key := None)"
      by (auto simp: cache_get_def)
    with assms(1) show ?thesis by (auto split: if_splits)
  next
    case False
    with Some assms(2) have "res = Some (ce_emotion cached)" and "c' = c"
      by (auto simp: cache_get_def)
    with assms(1) Some show ?thesis by auto
  qed
qed

lemma cache_set_ok:
  assumes "\<forall>k e. cache_dict c k = Some e \<longrightarrow> valid_result (ce_emotion e)"
      and "valid_result r"
  shows "\<forall>k e. cache_dict (cache_set now key r c) k = Some e \<longrightarrow> valid_result (ce_emotion e)"
  using assms by (auto simp: cache_set_def split: if_splits)

lemma can_call_fields:
  "can_call now rl = (ok, rl') \<Longrightarrow>
     max_calls rl' = max_calls rl \<and> time_window rl' = time_window rl
     \<and> (ok \<longleftrightarrow> int (length (calls rl')) < max_calls rl)"
  by (auto simp: can_call_def Let_def)

text \<open>With a positive quota, a denied limiter holds a call, so \<^verbatim>\<open>min\<close> has an argument.\<close>

lemma time_until_next_call_returns:
  assumes "0 < max_calls rl"
  shows "\<exists>w rl'. time_until_next_call t_check t_now rl = (Inr w, rl')
           \<and> max_calls rl' = max_calls rl"
proof -
  obtain ok rl' where cc: "can_call t_check rl = (ok, rl')"
    by (cases "can_call t_check rl") auto
  from can_call_fields [OF cc] have
    m: "max_calls rl' = max_calls rl" and
    okd: "ok \<longleftrightarrow> int (length (calls rl')) < max_calls rl" by simp_all
  show ?thesis
  proof (cases ok)
    case True
    with cc m show ?thesis by (simp add: time_until_next_call_def)
  next
    case False
    with okd assms have "calls rl' \<noteq> []" by auto
    then obtain y ys where "calls rl' = y # ys" by (cases "calls rl'") auto
    with False cc m show ?thesis by (simp add: time_until_next_call_def py_min_def)
  qed
qed

text \<open>
  On a well-formed detector whose limiter allows at least one call per window,
  \<^verbatim>\<open>detect_emotion\<close> returns a result with a valid label, raises nothing and leaves the
  detector well formed.
\<close>

lemma detect_emotion_valid:
  assumes ok: "detector_ok d" and quota: "0 < max_calls (rate_limiter d)"
  shows "\<exists>r d'. detect_emotion env clk remote d text force = (Inr r, d')
           \<and> valid_result r \<and> detector_ok d'
           \<and> max_calls (rate_limiter d') = max_calls (rate_limiter d)"
proof (cases "\<not> force \<and> t_debounce clk - last_analysis_time d < of_int (min_analysis_interval d)")
  case True
  then have "detect_emotion env clk remote d text force = (Inr (last_emotion d), d)"
    by (simp add: detect_debounced)
  with ok show ?thesis by (simp add: detector_ok_def)
next
  case False
  then have nd: "force \<or> \<not> t_debounce clk - last_analysis_time d < of_int (min_analysis_interval d)"
    by blast
  let ?key = "text_hash_of env text"
  obtain res c1 where cg: "cache_get (t_cache_get clk) ?key (cache d) = (res, c1)"
    by (cases "cache_get (t_cache_get clk) ?key (cache d)") auto
  from ok have inv: "\<forall>k e. cache_dict (cache d) k = Some e \<longrightarrow> valid_result (ce_emotion e)"
    and last: "valid_result (last_emotion d)"
    by (simp_all add: detector_ok_def)
  from cache_get_ok [OF inv cg] have
    inv1: "\<forall>k e. cache_dict c1 k = Some e \<longrightarrow> valid_result (ce_emotion e)" and
    resv: "\<forall>e. res = Some e \<longrightarrow> valid_result e" by simp_all
  show ?thesis
  proof (cases res)
    case (Some e)
    with cg have "detect_emotion env clk remote d text force = (Inr e, d\<lparr>cache := c1\<rparr>)"
      using nd by (simp add: detect_cache_hit)
    with Some resv inv1 last show ?thesis by (simp add: detector_ok_def)
  next
    case None
    with cg have cg': "cache_get (t_cache_get clk) ?key (cache d) = (None, c1)" by simp
    obtain admitted rl1 where cc: "can_call (t_can_call clk) (rate_limiter d) = (admitted, rl1)"
      by (cases "can_call (t_can_call clk) (rate_limiter d)") auto
    from can_call_fields [OF cc] have m1: "max_calls rl1 = max_calls (rate_limiter d)"
      by simp
    show ?thesis
    proof (cases admitted)
      case False
      with cc have cc': "can_call (t_can_call clk) (rate_limiter d) = (False, rl1)" by simp
      from time_until_next_call_returns [of rl1 "t_wait_check clk" "t_wait_now clk"] quota m1
      obtain w rl2 where
        tw: "time_until_next_call (t_wait_check clk) (t_wait_now clk) rl1 = (Inr w, rl2)" and
        m2: "max_calls rl2 = max_calls rl1" by auto
      have "detect_emotion env clk remote d text force =
          (Inr (last_emotion d), d\<lparr>cache := c1, rate_limiter := rl2\<rparr>)"
        using detect_rate_limited [OF nd cg' cc' tw] by simp
      with last inv1 m1 m2 show ?thesis by (simp add: detector_ok_def)
    next
      case True
      with cc cg' nd have ra: "reaches_analysis env clk d text force"
        by (simp add: reaches_analysis_def)
      have ba: "before_analysis env clk d text = d\<lparr>cache := c1, rate_limiter := rl1\<rparr>"
        by (simp add: before_analysis_def cg' cc)
      show ?thesis
      proof (cases "has_client d")
        case False
        then show ?thesis
          unfolding detect_at_analysis [OF ra] ba
          using neutral_valid last inv1 m1 by (simp add: detector_ok_def)
      next
        case hc: True
        show ?thesis
        proof (cases "analyze_with_gemini env (utc_now clk) remote text")
          case (Inl err)
          then show ?thesis
            unfolding detect_at_analysis [OF ra] ba
            using hc last inv1 m1 by (simp add: detector_ok_def)
        next
          case (Inr r)
          then have v: "valid_result r" by (rule analyze_valid)
          from cache_set_ok [OF inv1 v] Inr show ?thesis
            unfolding detect_at_analysis [OF ra] ba
            using hc v m1 by (simp add: detector_ok_def record_call_def)
        qed
      qed
    qed
  qed
qed

text \<open>
  C1. On every path that returns, the label is one of the 8 categories, as
  \<open>detect_emotion_valid\<close> shows for a limiter that allows at least one call per window.
  With a limiter that allows no call (\<^verbatim>\<open>rate_limit_calls=0\<close>), the call is denied while
  the limiter holds no call, \<^verbatim>\<open>time_until_next_call\<close> takes \<^verbatim>\<open>min\<close> of an empty list, and
  the ValueError leaves \<^verbatim>\<open>detect_emotion\<close>: the statement below evaluates the code there.
\<close>

theorem detect_emotion_raises_without_quota:
  "fst (detect_emotion example_runtime (clock_at 1000 ''2026-01-15T04:00:00'')
          (\<lambda>prompt. Text happy_text)
          (EmotionDetector_init ''2026-01-15T03:00:00'' True 0 60 30 5) ''Hello there'' False)
     = Inl ValueError"
  by (simp add: detect_emotion_def EmotionDetector_init_def clock_at_def cache_get_def
        EmotionCache_init_def can_call_def RateLimiter_init_def time_until_next_call_def
        py_min_def)

end
